theory Spec2Isabelle
  imports Complex_Main
begin

section \<open>The training script \<^verbatim>\<open>train_darcy.py\<close>\<close>

text \<open>
  The script is one function, \<^verbatim>\<open>main\<close>, with two closures (\<^verbatim>\<open>loss_fn\<close> and
  \<^verbatim>\<open>update\<close>). It splits a dataset, builds two loaders, initialises a model and an
  optimizer and then runs \<^verbatim>\<open>n_epochs\<close> epochs, each a training pass followed by a
  validation pass, reporting to \<^verbatim>\<open>wandb\<close>.

  Exceptions are values: every function that can raise returns a sum whose left
  summand is the exception. Output on the terminal (\<^verbatim>\<open>print\<close>, the \<^verbatim>\<open>tqdm\<close>
  progress bar with its description and postfix) is not part of the model; the calls
  of \<^verbatim>\<open>wandb.log\<close> and \<^verbatim>\<open>log_wandb_image\<close> are, as a list of entries in call order.
\<close>

subsection \<open>Exceptions and scalars\<close>

datatype error = ValueError | IndexError | UnboundLocalError

text \<open>
  A scalar JAX array. The finite values are idealised as reals (no rounding, no
  overflow); the special values of IEEE arithmetic are kept, since dividing by zero
  yields them instead of raising.
\<close>

datatype jax_scalar = Finite real | PosInf | NegInf | NaN

fun is_finite :: "jax_scalar \<Rightarrow> bool" where
  "is_finite (Finite x) = True"
| "is_finite PosInf = False"
| "is_finite NegInf = False"
| "is_finite NaN = False"

text \<open>\<^verbatim>\<open>lossval / val_steps\<close>: a scalar array divided by a Python \<^verbatim>\<open>int\<close>.\<close>

fun true_divide :: "jax_scalar \<Rightarrow> nat \<Rightarrow> jax_scalar" where
  "true_divide (Finite x) n =
     (if n = 0 then (if 0 < x then PosInf else if x < 0 then NegInf else NaN)
      else Finite (x / real n))"
| "true_divide PosInf n = PosInf"
| "true_divide NegInf n = NegInf"
| "true_divide NaN n = NaN"

text \<open>\<^verbatim>\<open>lossval * len(x)\<close>: a scalar array times a Python \<^verbatim>\<open>int\<close>.\<close>

fun multiply :: "jax_scalar \<Rightarrow> nat \<Rightarrow> jax_scalar" where
  "multiply (Finite x) n = Finite (x * real n)"
| "multiply PosInf n = (if n = 0 then NaN else PosInf)"
| "multiply NegInf n = (if n = 0 then NaN else NegInf)"
| "multiply NaN n = NaN"

text \<open>\<^verbatim>\<open>avg_loss += ...\<close>: the sum of two scalars.\<close>

fun add :: "jax_scalar \<Rightarrow> jax_scalar \<Rightarrow> jax_scalar" where
  "add (Finite x) (Finite y) = Finite (x + y)"
| "add NaN b = NaN"
| "add a NaN = NaN"
| "add PosInf NegInf = NaN"
| "add NegInf PosInf = NaN"
| "add PosInf b = PosInf"
| "add a PosInf = PosInf"
| "add NegInf b = NegInf"
| "add a NegInf = NegInf"

subsection \<open>Sequencing of calls that may raise\<close>

definition then_do :: "'e + 'a \<Rightarrow> ('a \<Rightarrow> 'e + 'b) \<Rightarrow> 'e + 'b" where
  "then_do r f = (case r of Inl e \<Rightarrow> Inl e | Inr v \<Rightarrow> f v)"

subsection \<open>Indexing\<close>

text \<open>\<^verbatim>\<open>xs[i]\<close> for \<^verbatim>\<open>i >= 0\<close>: out of range raises \<^verbatim>\<open>IndexError\<close>.\<close>

definition getitem :: "'c list \<Rightarrow> nat \<Rightarrow> error + 'c" where
  "getitem xs i = (if i < length xs then Inr (xs ! i) else Inl IndexError)"

text \<open>
  \<^verbatim>\<open>jnp.expand_dims(t, axis=0)\<close>: the leading (batch) axis of an array is modelled as a
  list, so the array with a new leading axis of length one is the one-element list.
\<close>

definition expand_dims :: "'c \<Rightarrow> 'c list" where
  "expand_dims t = [t]"

subsection \<open>The dataset partitioner: \<^verbatim>\<open>random_split\<close>\<close>

text \<open>
  A \<^verbatim>\<open>Subset\<close> is the dataset with a list of indices into it; \<^verbatim>\<open>subset[i]\<close> is
  \<^verbatim>\<open>dataset[indices[i]]\<close>.
\<close>

record 'c subset =
  dataset :: "'c list"
  indices :: "nat list"

definition subset_getitem :: "'c subset \<Rightarrow> nat \<Rightarrow> error + 'c" where
  "subset_getitem s i = then_do (getitem (indices s) i) (getitem (dataset s))"

fun subset_getitems :: "'c subset \<Rightarrow> nat list \<Rightarrow> error + 'c list" where
  "subset_getitems s [] = Inr []"
| "subset_getitems s (i # is) =
     then_do (subset_getitem s i) (\<lambda>v. then_do (subset_getitems s is) (\<lambda>vs. Inr (v # vs)))"

text \<open>
  \<^verbatim>\<open>random_split(dataset, [n_train, n_test])\<close> of \<^verbatim>\<open>torch.utils.data\<close> (lines 33 to 36).
  The library is not part of the repository; this is its documented behaviour, for two
  lengths that are non-negative integers, as the script passes; \<open>N\<close> is \<^verbatim>\<open>len(dataset)\<close>.

  Lengths that sum to one are read as fractions of the dataset: each becomes
  \<^verbatim>\<open>floor(N * fraction)\<close>, and what remains of \<open>N\<close> is handed out one by one, to the
  first length, the second, the first again, and so on. (For integers that sum to one
  nothing remains: the lengths become \<open>N\<close> and \<open>0\<close>, or \<open>0\<close> and \<open>N\<close>.)
\<close>

definition fraction_lengths :: "nat \<Rightarrow> nat \<Rightarrow> nat \<Rightarrow> nat \<times> nat" where
  "fraction_lengths N frac_tr frac_ev =
     (let l_tr = N * frac_tr; l_ev = N * frac_ev;
          remainder = N - (l_tr + l_ev)
      in (l_tr + (remainder + 1) div 2, l_ev + remainder div 2))"

text \<open>
  Then the lengths must sum to the length of the dataset, otherwise \<^verbatim>\<open>ValueError\<close> is
  raised; a random permutation of \<^verbatim>\<open>range(sum(lengths))\<close> is drawn and cut into
  consecutive slices, one per length. The permutation drawn is the argument \<open>perm\<close>.
\<close>

definition random_split :: "nat \<Rightarrow> nat \<Rightarrow> nat \<Rightarrow> nat list \<Rightarrow> error + (nat list \<times> nat list)" where
  "random_split N n_tr n_ev perm =
     (let (l_tr, l_ev) = (if n_tr + n_ev = 1 then fraction_lengths N n_tr n_ev else (n_tr, n_ev))
      in if l_tr + l_ev \<noteq> N then Inl ValueError
         else Inr (take l_tr perm, take l_ev (drop l_tr perm)))"

text \<open>What \<^verbatim>\<open>torch.randperm(N)\<close> can return: every index below \<open>N\<close> exactly once.\<close>

definition is_randperm :: "nat \<Rightarrow> nat list \<Rightarrow> bool" where
  "is_randperm N perm = (length perm = N \<and> distinct perm \<and> list_all (\<lambda>i. i < N) perm)"

subsection \<open>The batch iterator: \<^verbatim>\<open>DataLoader\<close>\<close>

text \<open>
  Modelled from the spec: the \<^verbatim>\<open>DataLoader\<close> of \<^verbatim>\<open>torch.utils.data\<close> is called at lines
  39 to 51 and is not among the repository's sources. Section 4.2 of the specification
  describes the batches it forms from the order its sampler yields: consecutive groups
  of \<open>B\<close> indices, and a final short group that is discarded when \<^verbatim>\<open>drop_last\<close> is set and
  yielded as a short batch otherwise. A batch size of zero never reaches this function:
  the constructor below raises for it.
\<close>

function batch_sampler :: "nat \<Rightarrow> bool \<Rightarrow> nat list \<Rightarrow> nat list list" where
  "batch_sampler B drop_last order =
     (if B = 0 \<or> order = [] then []
      else if length order < B then (if drop_last then [] else [order])
      else take B order # batch_sampler B drop_last (drop B order))"
  by pat_completeness auto
termination
  by (relation "measure (\<lambda>(B, d, order). length order)") auto

declare batch_sampler.simps [simp del]

record 'c data_loader =
  dl_dataset :: "'c subset"
  dl_batch_size :: nat
  dl_shuffle :: bool
  dl_drop_last :: bool

text \<open>
  The constructor. With \<^verbatim>\<open>shuffle\<close> set it builds the random sampler first, which raises
  \<^verbatim>\<open>ValueError\<close> for a subset without elements; then the batch sampler, which raises
  \<^verbatim>\<open>ValueError\<close> for a batch size that is not positive.
\<close>

definition DataLoader :: "'c subset \<Rightarrow> nat \<Rightarrow> bool \<Rightarrow> bool \<Rightarrow> error + 'c data_loader" where
  "DataLoader s B shuffle drop_last =
     (if shuffle \<and> indices s = [] then Inl ValueError
      else if B = 0 then Inl ValueError
      else Inr \<lparr>dl_dataset = s, dl_batch_size = B, dl_shuffle = shuffle, dl_drop_last = drop_last\<rparr>)"

subsection \<open>The collaborators\<close>

text \<open>
  An optimizer as \<^verbatim>\<open>optax\<close> returns it: \<^verbatim>\<open>init(params)\<close> and
  \<^verbatim>\<open>update(grads, opt_state, params)\<close>, the latter returning the updates and the new
  optimizer state. Gradients and updates have the shape of the parameters.
\<close>

record ('p, 'o) optimizer =
  opt_init :: "'p \<Rightarrow> 'o"
  opt_update :: "'p \<Rightarrow> 'o \<Rightarrow> 'p \<Rightarrow> 'p \<times> 'o"

text \<open>
  Everything \<^verbatim>\<open>main\<close> calls that is not in the script, as one record: \<open>'a\<close> is one input
  field, \<open>'b\<close> one target field, \<open>'p\<close> the parameters, \<open>'o\<close> the optimizer state.
  \<^item> \<open>collate_fn\<close> (of \<^verbatim>\<open>scripts.utils\<close>) stacks the samples of a batch;
  \<^item> \<open>model_init\<close> is \<^verbatim>\<open>model.init_with_output(SETTINGS.nrg, _x)[1]\<close> and \<open>model_apply\<close> is
    \<^verbatim>\<open>model.apply\<close> of the \<^verbatim>\<open>FNO2D\<close> model;
  \<^item> \<open>jnp_subtract\<close>, \<open>jnp_square\<close>, \<open>jnp_mean\<close> are \<^verbatim>\<open>y - y_pred\<close>, \<^verbatim>\<open>jnp.square\<close> and
    \<^verbatim>\<open>jnp.mean\<close>;
  \<^item> \<open>jax_grad f p\<close> is the gradient at \<open>p\<close> of the scalar function \<open>f\<close> of the parameters;
  \<^item> \<open>adamw\<close> and \<open>apply_updates\<close> are those of \<^verbatim>\<open>optax\<close>;
  \<^item> \<open>randperm\<close> is the permutation \<^verbatim>\<open>random_split\<close> draws, and \<open>random_sampler e\<close> the
    order in which the shuffling loader visits the training subset in epoch \<open>e\<close>.
\<close>

record ('a, 'b, 'p, 'o) env =
  collate_fn :: "('a \<times> 'b) list \<Rightarrow> 'a list \<times> 'b list"
  model_init :: "'a list \<Rightarrow> 'p"
  model_apply :: "'p \<Rightarrow> 'a list \<Rightarrow> 'b list"
  jnp_subtract :: "'b list \<Rightarrow> 'b list \<Rightarrow> 'b list"
  jnp_square :: "'b list \<Rightarrow> 'b list"
  jnp_mean :: "'b list \<Rightarrow> jax_scalar"
  jax_grad :: "('p \<Rightarrow> jax_scalar) \<Rightarrow> 'p \<Rightarrow> 'p"
  adamw :: "real \<Rightarrow> real \<Rightarrow> ('p, 'o) optimizer"
  apply_updates :: "'p \<Rightarrow> 'p \<Rightarrow> 'p"
  randperm :: "nat list"
  random_sampler :: "nat \<Rightarrow> nat list"

subsection \<open>Iterating a loader\<close>

text \<open>
  One pass over a loader, in epoch \<open>e\<close>: the sampler's order (a fresh random order when
  \<^verbatim>\<open>shuffle\<close> is set, \<^verbatim>\<open>range(len(subset))\<close> otherwise) is cut into batches of
  indices, and each batch is fetched from the subset and collated when the loop asks
  for it. An item of the pass is a collated batch, or the exception its fetch raises.
\<close>

definition fetch :: "('a, 'b, 'p, 'o) env \<Rightarrow> ('a \<times> 'b) subset \<Rightarrow> nat list
    \<Rightarrow> error + ('a list \<times> 'b list)" where
  "fetch env s ib = then_do (subset_getitems s ib) (\<lambda>samples. Inr (collate_fn env samples))"

definition sampler_order :: "('a, 'b, 'p, 'o) env \<Rightarrow> ('a \<times> 'b) data_loader \<Rightarrow> nat \<Rightarrow> nat list" where
  "sampler_order env dl e =
     (if dl_shuffle dl then random_sampler env e else [0..<length (indices (dl_dataset dl))])"

definition data_loader_iter :: "('a, 'b, 'p, 'o) env \<Rightarrow> ('a \<times> 'b) data_loader \<Rightarrow> nat
    \<Rightarrow> (error + ('a list \<times> 'b list)) list" where
  "data_loader_iter env dl e =
     map (fetch env (dl_dataset dl))
       (batch_sampler (dl_batch_size dl) (dl_drop_last dl) (sampler_order env dl e))"

subsection \<open>Settings\<close>

text \<open>
  The fields of \<^verbatim>\<open>SETTINGS\<close> that \<^verbatim>\<open>main\<close> itself reads; \<^verbatim>\<open>data_path\<close>, \<^verbatim>\<open>nrg\<close> and
  \<^verbatim>\<open>fno.*\<close> only configure the dataset and the model, which are collaborators.
\<close>

record settings =
  n_train :: nat
  n_test :: nat
  batch_size :: nat
  learning_rate :: real
  weight_decay :: real
  n_epochs :: nat

definition SETTINGS :: settings where
  "SETTINGS = \<lparr>n_train = 1000, n_test = 200, batch_size = 20,
     learning_rate = 1 / 10000, weight_decay = 1 / 10000, n_epochs = 100\<rparr>"

subsection \<open>The loss and the update step\<close>

text \<open>Lines 75 to 77.\<close>

definition loss_fn :: "('a, 'b, 'p, 'o) env \<Rightarrow> 'p \<Rightarrow> 'a list \<Rightarrow> 'b list \<Rightarrow> jax_scalar" where
  "loss_fn env params x y =
     (let y_pred = model_apply env params x
      in jnp_mean env (jnp_square env (jnp_subtract env y y_pred)))"

text \<open>
  \<^verbatim>\<open>jax.value_and_grad(f)(params, x, y)\<close>: the value of \<open>f\<close> and its gradient with respect
  to the first argument.
\<close>

definition value_and_grad :: "('a, 'b, 'p, 'o) env \<Rightarrow> ('p \<Rightarrow> 'a list \<Rightarrow> 'b list \<Rightarrow> jax_scalar)
    \<Rightarrow> 'p \<Rightarrow> 'a list \<Rightarrow> 'b list \<Rightarrow> jax_scalar \<times> 'p" where
  "value_and_grad env f params x y = (f params x y, jax_grad env (\<lambda>p. f p x y) params)"

text \<open>Lines 79 to 84; the optimizer is the closure variable \<^verbatim>\<open>optimizer\<close>.\<close>

definition update :: "('a, 'b, 'p, 'o) env \<Rightarrow> ('p, 'o) optimizer \<Rightarrow> 'p \<Rightarrow> 'o \<Rightarrow> 'a list \<Rightarrow> 'b list
    \<Rightarrow> 'p \<times> 'o \<times> jax_scalar" where
  "update env optimizer params opt_state x y =
     (let (lossval, grads) = value_and_grad env (loss_fn env) params x y;
          (updates, opt_state') = opt_update optimizer grads opt_state params;
          params' = apply_updates env params updates
      in (params', opt_state', lossval))"

subsection \<open>The state of \<^verbatim>\<open>main\<close> and the reporting sink\<close>

datatype ('a, 'b) log_entry =
    Scalar string jax_scalar nat
  | Image string nat 'a 'b 'b

text \<open>
  \<open>Scalar name value step\<close> is \<^verbatim>\<open>wandb.log({name: value}, step=step)\<close>;
  \<open>Image name step x y y_pred\<close> is \<^verbatim>\<open>log_wandb_image(wandb, name, step, x, y, y_pred)\<close>.
  The local variable \<^verbatim>\<open>lossval\<close> is unbound (\<open>None\<close>) until its first assignment.
\<close>

record ('a, 'b, 'p, 'o) state =
  model_params :: 'p
  opt_state :: 'o
  step :: nat
  lossval :: "jax_scalar option"
  wandb :: "('a, 'b) log_entry list"

text \<open>
  A statement of \<^verbatim>\<open>main\<close> either raises, leaving the entries logged so far, or
  continues with a new state.
\<close>

type_synonym ('a, 'b, 'p, 'o) outcome =
  "(error \<times> ('a, 'b) log_entry list) + ('a, 'b, 'p, 'o) state"

definition logged :: "('a, 'b, 'p, 'o) outcome \<Rightarrow> ('a, 'b) log_entry list" where
  "logged out = (case out of Inl (e, l) \<Rightarrow> l | Inr st \<Rightarrow> wandb st)"

subsection \<open>One epoch\<close>

text \<open>
  Lines 96 to 99 and 133 to 136: the sample at index 0 of a subset, its prediction
  under the current parameters, and the call of \<^verbatim>\<open>log_wandb_image\<close>. The source's
  \<^verbatim>\<open>_x\<close>, \<^verbatim>\<open>_y\<close> and \<^verbatim>\<open>_y_pred\<close> are \<open>x'\<close>, \<open>y'\<close> and \<open>y_pred\<close> here.
\<close>

definition log_image :: "('a, 'b, 'p, 'o) env \<Rightarrow> string \<Rightarrow> ('a \<times> 'b) subset
    \<Rightarrow> ('a, 'b, 'p, 'o) state \<Rightarrow> ('a, 'b, 'p, 'o) outcome" where
  "log_image env name s st =
     (case subset_getitem s 0 of
        Inl e \<Rightarrow> Inl (e, wandb st)
      | Inr (x0, y0) \<Rightarrow>
          (let x' = expand_dims x0; y' = expand_dims y0;
               y_pred = model_apply env (model_params st) x'
           in case getitem x' 0 of
                Inl e \<Rightarrow> Inl (e, wandb st)
              | Inr x \<Rightarrow>
                  (case getitem y' 0 of
                     Inl e \<Rightarrow> Inl (e, wandb st)
                   | Inr y \<Rightarrow>
                       (case getitem y_pred 0 of
                          Inl e \<Rightarrow> Inl (e, wandb st)
                        | Inr p \<Rightarrow> Inr (st\<lparr>wandb := wandb st @ [Image name (step st) x y p]\<rparr>)))))"

text \<open>Lines 107 to 115: the body of the training loop for one batch.\<close>

definition train_step :: "('a, 'b, 'p, 'o) env \<Rightarrow> ('p, 'o) optimizer \<Rightarrow> ('a, 'b, 'p, 'o) state
    \<Rightarrow> 'a list \<times> 'b list \<Rightarrow> ('a, 'b, 'p, 'o) state" where
  "train_step env optimizer st batch =
     (let (x, y) = batch;
          (params', opt_state', l) = update env optimizer (model_params st) (opt_state st) x y
      in st\<lparr>model_params := params', opt_state := opt_state', lossval := Some l,
            wandb := wandb st @ [Scalar ''loss'' l (step st)], step := step st + 1\<rparr>)"

text \<open>Lines 102 to 115: the training loop over the items of one pass of the loader.\<close>

fun train_pass :: "('a, 'b, 'p, 'o) env \<Rightarrow> ('p, 'o) optimizer \<Rightarrow> ('a, 'b, 'p, 'o) state
    \<Rightarrow> (error + ('a list \<times> 'b list)) list \<Rightarrow> ('a, 'b, 'p, 'o) outcome" where
  "train_pass env optimizer st [] = Inr st"
| "train_pass env optimizer st (Inl e # items) = Inl (e, wandb st)"
| "train_pass env optimizer st (Inr batch # items) =
     train_pass env optimizer (train_step env optimizer st batch) items"

text \<open>
  Lines 120 to 128: the validation loop, with the locals \<^verbatim>\<open>avg_loss\<close> and
  \<^verbatim>\<open>val_steps\<close> as arguments; it returns them with the state.
\<close>

fun validation_loop :: "('a, 'b, 'p, 'o) env \<Rightarrow> ('a, 'b, 'p, 'o) state \<Rightarrow> jax_scalar \<Rightarrow> nat
    \<Rightarrow> (error + ('a list \<times> 'b list)) list
    \<Rightarrow> (error \<times> ('a, 'b) log_entry list) + (('a, 'b, 'p, 'o) state \<times> jax_scalar \<times> nat)" where
  "validation_loop env st avg_loss val_steps [] = Inr (st, avg_loss, val_steps)"
| "validation_loop env st avg_loss val_steps (Inl e # items) = Inl (e, wandb st)"
| "validation_loop env st avg_loss val_steps (Inr (x, y) # items) =
     (let l = loss_fn env (model_params st) x y
      in validation_loop env (st\<lparr>lossval := Some l\<rparr>)
           (add avg_loss (multiply l (length x))) (val_steps + 1) items)"

text \<open>Lines 117 to 128: \<^verbatim>\<open>avg_loss = 0\<close>, \<^verbatim>\<open>val_steps = 0\<close>, then the loop.\<close>

definition validation_pass :: "('a, 'b, 'p, 'o) env \<Rightarrow> ('a, 'b, 'p, 'o) state
    \<Rightarrow> (error + ('a list \<times> 'b list)) list
    \<Rightarrow> (error \<times> ('a, 'b) log_entry list) + (('a, 'b, 'p, 'o) state \<times> jax_scalar \<times> nat)" where
  "validation_pass env st items = validation_loop env st (Finite 0) 0 items"

text \<open>Line 130: reading \<^verbatim>\<open>lossval\<close> before any assignment raises.\<close>

definition report_val_loss :: "('a, 'b, 'p, 'o) state \<Rightarrow> nat \<Rightarrow> ('a, 'b, 'p, 'o) outcome" where
  "report_val_loss st val_steps =
     (case lossval st of
        None \<Rightarrow> Inl (UnboundLocalError, wandb st)
      | Some l \<Rightarrow>
          Inr (st\<lparr>wandb := wandb st @ [Scalar ''val_loss'' (true_divide l val_steps) (step st)]\<rparr>))"

text \<open>Lines 117 to 130: the validation pass and its report.\<close>

definition validate_and_report :: "('a, 'b, 'p, 'o) env \<Rightarrow> ('a, 'b, 'p, 'o) state
    \<Rightarrow> (error + ('a list \<times> 'b list)) list \<Rightarrow> ('a, 'b, 'p, 'o) outcome" where
  "validate_and_report env st items =
     then_do (validation_pass env st items) (\<lambda>(st', avg_loss, val_steps). report_val_loss st' val_steps)"

text \<open>Lines 93 to 136: the body of the epoch loop.\<close>

definition run_epoch :: "('a, 'b, 'p, 'o) env \<Rightarrow> ('p, 'o) optimizer
    \<Rightarrow> ('a \<times> 'b) subset \<Rightarrow> ('a \<times> 'b) subset \<Rightarrow> ('a \<times> 'b) data_loader \<Rightarrow> ('a \<times> 'b) data_loader
    \<Rightarrow> nat \<Rightarrow> ('a, 'b, 'p, 'o) state \<Rightarrow> ('a, 'b, 'p, 'o) outcome" where
  "run_epoch env optimizer train_dataset test_dataset train_loader test_loader epoch st =
     then_do (log_image env ''Training image'' train_dataset st) (\<lambda>st1.
     then_do (train_pass env optimizer st1 (data_loader_iter env train_loader epoch)) (\<lambda>st2.
     then_do (validate_and_report env st2 (data_loader_iter env test_loader epoch)) (\<lambda>st3.
     log_image env ''Validation image'' test_dataset st3)))"

text \<open>Lines 92 to 136: the epoch loop, over the epochs still to run.\<close>

fun epochs :: "('a, 'b, 'p, 'o) env \<Rightarrow> ('p, 'o) optimizer
    \<Rightarrow> ('a \<times> 'b) subset \<Rightarrow> ('a \<times> 'b) subset \<Rightarrow> ('a \<times> 'b) data_loader \<Rightarrow> ('a \<times> 'b) data_loader
    \<Rightarrow> nat list \<Rightarrow> ('a, 'b, 'p, 'o) state \<Rightarrow> ('a, 'b, 'p, 'o) outcome" where
  "epochs env optimizer train_dataset test_dataset train_loader test_loader [] st = Inr st"
| "epochs env optimizer train_dataset test_dataset train_loader test_loader (epoch # rest) st =
     then_do (run_epoch env optimizer train_dataset test_dataset train_loader test_loader epoch st)
       (epochs env optimizer train_dataset test_dataset train_loader test_loader rest)"

subsection \<open>\<^verbatim>\<open>main\<close>\<close>

text \<open>
  Lines 30 to 136, for any settings and any dataset (the \<^verbatim>\<open>MatlabDataset\<close>, as the list
  of its samples). An exception before the first epoch leaves nothing logged.
\<close>

definition main_with :: "settings \<Rightarrow> ('a, 'b, 'p, 'o) env \<Rightarrow> ('a \<times> 'b) list
    \<Rightarrow> ('a, 'b, 'p, 'o) outcome" where
  "main_with cfg env ds =
     (case random_split (length ds) (n_train cfg) (n_test cfg) (randperm env) of
        Inl e \<Rightarrow> Inl (e, [])
      | Inr (train_indices, test_indices) \<Rightarrow>
          (let train_dataset = \<lparr>dataset = ds, indices = train_indices\<rparr>;
               test_dataset = \<lparr>dataset = ds, indices = test_indices\<rparr>
           in case DataLoader train_dataset (batch_size cfg) True True of
                Inl e \<Rightarrow> Inl (e, [])
              | Inr train_loader \<Rightarrow>
                  (case DataLoader test_dataset (batch_size cfg) False False of
                     Inl e \<Rightarrow> Inl (e, [])
                   | Inr test_loader \<Rightarrow>
                       (case subset_getitem train_dataset 0 of
                          Inl e \<Rightarrow> Inl (e, [])
                        | Inr (x0, y0) \<Rightarrow>
                            (let x' = expand_dims x0;
                                 params = model_init env x';
                                 optimizer = adamw env (learning_rate cfg) (weight_decay cfg);
                                 opt_state0 = opt_init optimizer params
                             in epochs env optimizer train_dataset test_dataset
                                  train_loader test_loader [0..<n_epochs cfg]
                                  \<lparr>model_params = params, opt_state = opt_state0, step = 0,
                                   lossval = None, wandb = []\<rparr>)))))"

definition main :: "('a, 'b, 'p, 'o) env \<Rightarrow> ('a \<times> 'b) list \<Rightarrow> ('a, 'b, 'p, 'o) outcome" where
  "main env ds = main_with SETTINGS env ds"

subsection \<open>The optimizer of \<^verbatim>\<open>optax\<close>\<close>

text \<open>
  Parameters, gradients and updates as functions from the position \<open>'k\<close> of a number in
  the parameter tree to that number, idealised as a real.
\<close>

record 'k adam_state =
  adam_count :: nat
  mu :: "'k \<Rightarrow> real"
  nu :: "'k \<Rightarrow> real"

text \<open>
  Modelled from the spec: \<^verbatim>\<open>optax.adamw\<close> and \<^verbatim>\<open>optax.apply_updates\<close> are called at lines
  68 to 72 and 82 to 83 and are not among the repository's sources. Section 4.3 of the
  specification describes the step, per parameter: the biased first and second moment
  estimates are updated with decay rates 0.9 and 0.999, bias-corrected, the delta is
  the corrected first moment over the square root of the corrected second moment plus
  the stabilizer 1e-8, the decay term \<open>weight_decay * parameter\<close> is added, and the sum is
  scaled by minus the learning rate; \<open>init\<close> gives zero moments and a zero step count.
\<close>

definition optax_adamw :: "real \<Rightarrow> real \<Rightarrow> ('k \<Rightarrow> real, 'k adam_state) optimizer" where
  "optax_adamw lr wd =
     \<lparr>opt_init = (\<lambda>params. \<lparr>adam_count = 0, mu = (\<lambda>k. 0), nu = (\<lambda>k. 0)\<rparr>),
      opt_update = (\<lambda>grads s params.
        (let b1 = 9 / 10; b2 = 999 / 1000; eps = 1 / 10 ^ 8; eps_root = 0;
             mu' = (\<lambda>k. (1 - b1) * grads k + b1 * mu s k);
             nu' = (\<lambda>k. (1 - b2) * (grads k)\<^sup>2 + b2 * nu s k);
             count_inc = adam_count s + 1;
             mu_hat = (\<lambda>k. mu' k / (1 - b1 ^ count_inc));
             nu_hat = (\<lambda>k. nu' k / (1 - b2 ^ count_inc));
             adam = (\<lambda>k. mu_hat k / (sqrt (nu_hat k + eps_root) + eps));
             decayed = (\<lambda>k. adam k + wd * params k);
             updates = (\<lambda>k. - lr * decayed k)
         in (updates, \<lparr>adam_count = count_inc, mu = mu', nu = nu'\<rparr>)))\<rparr>"

definition optax_apply_updates :: "('k \<Rightarrow> real) \<Rightarrow> ('k \<Rightarrow> real) \<Rightarrow> ('k \<Rightarrow> real)" where
  "optax_apply_updates params updates = (\<lambda>k. params k + updates k)"

text \<open>The collaborators with the optimizer slots filled by the \<^verbatim>\<open>optax\<close> functions.\<close>

definition with_optax :: "('a, 'b, 'k \<Rightarrow> real, 'k adam_state) env
    \<Rightarrow> ('a, 'b, 'k \<Rightarrow> real, 'k adam_state) env" where
  "with_optax env = env\<lparr>adamw := optax_adamw, apply_updates := optax_apply_updates\<rparr>"

subsection \<open>A small instance of the collaborators\<close>

text \<open>
  Used to run the definitions on concrete inputs: fields are single reals, the model
  has one weight \<open>w\<close> and predicts \<open>w * x\<close>, the loss is the mean squared error, its
  gradient is the central difference (exact, the loss being quadratic in \<open>w\<close>), and the
  optimizer slot holds gradient descent with decoupled weight decay, whose state counts
  the steps.
\<close>

definition example_env :: "nat list \<Rightarrow> (nat \<Rightarrow> nat list) \<Rightarrow> (real, real, real, nat) env" where
  "example_env perm sampler =
     \<lparr>collate_fn = (\<lambda>samples. (map fst samples, map snd samples)),
      model_init = (\<lambda>x. 0),
      model_apply = (\<lambda>w xs. map (\<lambda>x. w * x) xs),
      jnp_subtract = (\<lambda>ys ps. map (\<lambda>(y, p). y - p) (zip ys ps)),
      jnp_square = map (\<lambda>v. v * v),
      jnp_mean = (\<lambda>vs. if vs = [] then NaN else Finite (sum_list vs / real (length vs))),
      jax_grad = (\<lambda>f w. case (f (w + 1), f (w - 1)) of
                     (Finite a, Finite b) \<Rightarrow> (a - b) / 2
                   | _ \<Rightarrow> 0),
      adamw = (\<lambda>lr wd. \<lparr>opt_init = (\<lambda>w. 0), opt_update = (\<lambda>g s w. (- lr * (g + wd * w), s + 1))\<rparr>),
      apply_updates = (\<lambda>w u. w + u),
      randperm = perm,
      random_sampler = sampler\<rparr>"

definition example_settings :: settings where
  "example_settings = \<lparr>n_train = 2, n_test = 3, batch_size = 2,
     learning_rate = 1 / 10, weight_decay = 0, n_epochs = 2\<rparr>"

definition example_dataset :: "(real \<times> real) list" where
  "example_dataset = [(1, 2), (2, 4), (3, 6), (4, 8), (5, 10)]"

definition example_state :: "(real, real, real, nat) state" where
  "example_state = \<lparr>model_params = 1, opt_state = 0, step = 5, lossval = None, wandb = []\<rparr>"

definition example_run_env :: "(real, real, real, nat) env" where
  "example_run_env = example_env [3, 0, 4, 1, 2] (\<lambda>e. if e = 0 then [0, 1] else [1, 0])"

definition example_train_dataset :: "(real \<times> real) subset" where
  "example_train_dataset = \<lparr>dataset = example_dataset, indices = [3, 0]\<rparr>"

definition example_test_dataset :: "(real \<times> real) subset" where
  "example_test_dataset = \<lparr>dataset = example_dataset, indices = [4, 1, 2]\<rparr>"

definition example_train_loader :: "(real \<times> real) data_loader" where
  "example_train_loader = \<lparr>dl_dataset = example_train_dataset, dl_batch_size = 2,
     dl_shuffle = True, dl_drop_last = True\<rparr>"

definition example_test_loader :: "(real \<times> real) data_loader" where
  "example_test_loader = \<lparr>dl_dataset = example_test_dataset, dl_batch_size = 2,
     dl_shuffle = False, dl_drop_last = False\<rparr>"

definition example_optimizer :: "(real, nat) optimizer" where
  "example_optimizer = adamw example_run_env (1 / 10) 0"

definition example_start :: "(real, real, real, nat) state" where
  "example_start = \<lparr>model_params = 0, opt_state = 0, step = 0, lossval = None, wandb = []\<rparr>"

definition example_after_epoch :: "(real, real, real, nat) state" where
  "example_after_epoch = \<lparr>model_params = 17 / 5, opt_state = 1, step = 1,
     lossval = Some (Finite (441 / 25)),
     wandb = [Image ''Training image'' 0 4 8 0, Scalar ''loss'' (Finite 34) 0,
              Scalar ''val_loss'' (Finite (441 / 50)) 1, Image ''Validation image'' 1 5 10 17]\<rparr>"

definition example_after_second_epoch :: "(real, real, real, nat) state" where
  "example_after_second_epoch = \<lparr>model_params = 51 / 50, opt_state = 2, step = 2,
     lossval = Some (Finite (21609 / 2500)),
     wandb = [Image ''Training image'' 0 4 8 0, Scalar ''loss'' (Finite 34) 0,
              Scalar ''val_loss'' (Finite (441 / 50)) 1, Image ''Validation image'' 1 5 10 17,
              Image ''Training image'' 1 4 8 (68 / 5), Scalar ''loss'' (Finite (833 / 50)) 1,
              Scalar ''val_loss'' (Finite (21609 / 5000)) 2,
              Image ''Validation image'' 2 5 10 (51 / 10)]\<rparr>"

text \<open>
  A run whose evaluation subset is empty, and one that has neither a training batch nor
  an evaluation batch (three samples, all for training, and the batch size 20 of the
  script).
\<close>

definition no_eval_dataset :: "(real \<times> real) list" where
  "no_eval_dataset = [(4, 8), (1, 2)]"

definition no_eval_train_dataset :: "(real \<times> real) subset" where
  "no_eval_train_dataset = \<lparr>dataset = no_eval_dataset, indices = [0, 1]\<rparr>"

definition no_eval_test_dataset :: "(real \<times> real) subset" where
  "no_eval_test_dataset = \<lparr>dataset = no_eval_dataset, indices = []\<rparr>"

definition no_eval_train_loader :: "(real \<times> real) data_loader" where
  "no_eval_train_loader = \<lparr>dl_dataset = no_eval_train_dataset, dl_batch_size = 2,
     dl_shuffle = True, dl_drop_last = True\<rparr>"

definition no_eval_test_loader :: "(real \<times> real) data_loader" where
  "no_eval_test_loader = \<lparr>dl_dataset = no_eval_test_dataset, dl_batch_size = 2,
     dl_shuffle = False, dl_drop_last = False\<rparr>"

definition no_batch_settings :: settings where
  "no_batch_settings = \<lparr>n_train = 3, n_test = 0, batch_size = 20,
     learning_rate = 1 / 10000, weight_decay = 1 / 10000, n_epochs = 1\<rparr>"

definition no_batch_env :: "(real, real, real, nat) env" where
  "no_batch_env = example_env [2, 0, 1] (\<lambda>e. [1, 2, 0])"

definition no_batch_dataset :: "(real \<times> real) list" where
  "no_batch_dataset = [(1, 2), (2, 4), (3, 6)]"

text \<open>
  The one-weight model with the \<^verbatim>\<open>optax\<close> optimizer: at the weight 2 the loss on samples
  of \<open>y = 2 x\<close> is minimal and its gradient is zero.
\<close>

definition optax_example_env :: "(real, real, unit \<Rightarrow> real, unit adam_state) env" where
  "optax_example_env = with_optax
     \<lparr>collate_fn = (\<lambda>samples. (map fst samples, map snd samples)),
      model_init = (\<lambda>x k. 0),
      model_apply = (\<lambda>w xs. map (\<lambda>x. w () * x) xs),
      jnp_subtract = (\<lambda>ys ps. map (\<lambda>(y, p). y - p) (zip ys ps)),
      jnp_square = map (\<lambda>v. v * v),
      jnp_mean = (\<lambda>vs. if vs = [] then NaN else Finite (sum_list vs / real (length vs))),
      jax_grad = (\<lambda>f w k. case (f (\<lambda>k. w k + 1), f (\<lambda>k. w k - 1)) of
                     (Finite a, Finite b) \<Rightarrow> (a - b) / 2
                   | _ \<Rightarrow> 0),
      adamw = optax_adamw,
      apply_updates = optax_apply_updates,
      randperm = [],
      random_sampler = (\<lambda>e. [])\<rparr>"

definition optimum :: "unit \<Rightarrow> real" where
  "optimum = (\<lambda>k. 2)"

definition fresh_adam_state :: "unit adam_state" where
  "fresh_adam_state = opt_init (optax_adamw (learning_rate SETTINGS) (weight_decay SETTINGS)) optimum"

subsection \<open>Reading the log\<close>

fun is_scalar :: "string \<Rightarrow> ('a, 'b) log_entry \<Rightarrow> bool" where
  "is_scalar name (Scalar n v s) = (n = name)"
| "is_scalar name (Image n s x y p) = False"

fun entry_step :: "('a, 'b) log_entry \<Rightarrow> nat" where
  "entry_step (Scalar n v s) = s"
| "entry_step (Image n s x y p) = s"

text \<open>The scalar metrics reported under one key, in call order.\<close>

definition reports :: "string \<Rightarrow> ('a, 'b) log_entry list \<Rightarrow> ('a, 'b) log_entry list" where
  "reports name l = filter (is_scalar name) l"

text \<open>The names of the images logged, in call order.\<close>

fun image_names :: "('a, 'b) log_entry list \<Rightarrow> string list" where
  "image_names [] = []"
| "image_names (Image name s x y p # l) = name # image_names l"
| "image_names (Scalar n v s # l) = image_names l"

text \<open>What a statement that started in state \<open>st\<close> has added to the log.\<close>

definition appended :: "('a, 'b, 'p, 'o) state \<Rightarrow> ('a, 'b, 'p, 'o) outcome
    \<Rightarrow> ('a, 'b) log_entry list" where
  "appended st out = drop (length (wandb st)) (logged out)"

text \<open>
  An image entry shows the sample at index 0: a training image that of the training
  subset, a validation image that of the evaluation subset.
\<close>

fun shows_index0 :: "('a \<times> 'b) subset \<Rightarrow> ('a \<times> 'b) subset \<Rightarrow> ('a, 'b) log_entry \<Rightarrow> bool" where
  "shows_index0 trd ted (Image name s x y p) =
     (if name = ''Training image'' then subset_getitem trd 0 = Inr (x, y)
      else name = ''Validation image'' \<and> subset_getitem ted 0 = Inr (x, y))"
| "shows_index0 trd ted (Scalar n v s) = True"

section \<open>Properties\<close>

subsection \<open>Basic facts\<close>

lemma then_do_Inl [simp]: "then_do (Inl e) f = Inl e"
  by (simp add: then_do_def)

lemma then_do_Inr [simp]: "then_do (Inr v) f = f v"
  by (simp add: then_do_def)

lemma then_do_eq_Inr: "then_do r f = Inr w \<Longrightarrow> \<exists>v. r = Inr v \<and> f v = Inr w"
  by (cases r) simp_all

lemma logged_Inr [simp]: "logged (Inr st) = wandb st"
  by (simp add: logged_def)

lemma logged_Inl [simp]: "logged (Inl (e, l)) = l"
  by (simp add: logged_def)

lemma getitem_singleton [simp]: "getitem [x] 0 = Inr x"
  by (simp add: getitem_def)

lemma reports_simps [simp]:
  "reports name [] = []"
  "reports name (l1 @ l2) = reports name l1 @ reports name l2"
  "reports name (Scalar n v s # l) = (if n = name then Scalar n v s # reports name l else reports name l)"
  "reports name (Image n s x y p # l) = reports name l"
  by (simp_all add: reports_def)

lemma reports_all: "list_all (is_scalar name) ls \<Longrightarrow> reports name ls = ls"
  by (induction ls) (simp_all add: reports_def)

lemma reports_other:
  "list_all (is_scalar name) ls \<Longrightarrow> name' \<noteq> name \<Longrightarrow> reports name' ls = []"
proof (induction ls)
  case Nil
  then show ?case by simp
next
  case (Cons a ls)
  then show ?case by (cases a) (simp_all add: reports_def)
qed

text \<open>The loss of the small instance, unfolded.\<close>

lemma example_loss [simp]:
  "loss_fn (example_env perm sampler) w xs ys =
     (if map (\<lambda>v. v * v) (map (\<lambda>(y, p). y - p) (zip ys (map (\<lambda>x. w * x) xs))) = [] then NaN
      else Finite (sum_list (map (\<lambda>v. v * v) (map (\<lambda>(y, p). y - p) (zip ys (map (\<lambda>x. w * x) xs))))
             / real (length (map (\<lambda>v. v * v) (map (\<lambda>(y, p). y - p) (zip ys (map (\<lambda>x. w * x) xs)))))))"
  by (simp add: loss_fn_def example_env_def)

subsection \<open>The phases of an epoch\<close>

lemma log_image_Inr:
  assumes "log_image env name s st = Inr st'"
  shows "\<exists>x y p. subset_getitem s 0 = Inr (x, y)
           \<and> st' = st\<lparr>wandb := wandb st @ [Image name (step st) x y p]\<rparr>"
  using assms
  by (auto simp: log_image_def expand_dims_def Let_def split: sum.splits prod.splits)

lemma log_image_Inl:
  assumes "log_image env name s st = Inl (e, l)"
  shows "l = wandb st"
  using assms
  by (auto simp: log_image_def expand_dims_def Let_def split: sum.splits prod.splits)

lemma train_step_fields:
  "step (train_step env opt st b) = step st + 1"
  "wandb (train_step env opt st b) =
     wandb st @ [Scalar ''loss'' (loss_fn env (model_params st) (fst b) (snd b)) (step st)]"
  "lossval (train_step env opt st b) = Some (loss_fn env (model_params st) (fst b) (snd b))"
  by (simp_all add: train_step_def update_def value_and_grad_def Let_def split: prod.splits)

lemma train_pass_logged:
  "\<exists>ls. logged (train_pass env opt st items) = wandb st @ ls
        \<and> list_all (is_scalar ''loss'') ls
        \<and> map entry_step ls = [step st ..< step st + length ls]
        \<and> (\<forall>st'. train_pass env opt st items = Inr st' \<longrightarrow> step st' = step st + length ls)"
proof (induction env opt st items rule: train_pass.induct)
  case (1 env opt st)
  then show ?case by simp
next
  case (2 env opt st e items)
  then show ?case by simp
next
  case (3 env opt st batch items)
  let ?st1 = "train_step env opt st batch"
  from 3 obtain ls where ls:
    "logged (train_pass env opt ?st1 items) = wandb ?st1 @ ls"
    "list_all (is_scalar ''loss'') ls"
    "map entry_step ls = [step ?st1 ..< step ?st1 + length ls]"
    "\<forall>st'. train_pass env opt ?st1 items = Inr st' \<longrightarrow> step st' = step ?st1 + length ls"
    by blast
  let ?e = "Scalar ''loss'' (loss_fn env (model_params st) (fst batch) (snd batch)) (step st)"
  have "logged (train_pass env opt st (Inr batch # items)) = wandb st @ (?e # ls)"
    using ls(1) by (simp add: train_step_fields)
  moreover have "list_all (is_scalar ''loss'') (?e # ls)"
    using ls(2) by simp
  moreover have "map entry_step (?e # ls) = [step st ..< step st + length (?e # ls)]"
    using ls(3) by (simp add: train_step_fields upt_rec)
  moreover have "\<forall>st'. train_pass env opt st (Inr batch # items) = Inr st'
      \<longrightarrow> step st' = step st + length (?e # ls)"
    using ls(4) by (simp add: train_step_fields)
  ultimately show ?case by blast
qed

lemma validation_loop_map_Inr:
  "validation_loop env st a n (map Inr bs) =
     Inr (if bs = [] then st
          else st\<lparr>lossval := Some (loss_fn env (model_params st) (fst (last bs)) (snd (last bs)))\<rparr>,
          foldl (\<lambda>acc b. add acc (multiply (loss_fn env (model_params st) (fst b) (snd b))
                                    (length (fst b)))) a bs,
          n + length bs)"
proof (induction bs arbitrary: st a n)
  case Nil
  then show ?case by simp
next
  case (Cons b bs)
  obtain x y where b: "b = (x, y)" by (cases b)
  show ?case
    by (simp add: b Cons.IH Let_def)
qed

lemma validation_loop_frame:
  "validation_loop env st a n items = Inr (st', a', n') \<Longrightarrow> st' = st\<lparr>lossval := lossval st'\<rparr>"
proof (induction env st a n items rule: validation_loop.induct)
  case (1 env st avg_loss val_steps)
  then show ?case by simp
next
  case (2 env st avg_loss val_steps e items)
  then show ?case by simp
next
  case (3 env st avg_loss val_steps x y items)
  let ?st1 = "st\<lparr>lossval := Some (loss_fn env (model_params st) x y)\<rparr>"
  from 3 have "st' = ?st1\<lparr>lossval := lossval st'\<rparr>"
    by (simp add: Let_def)
  then show ?case by simp
qed

lemma validation_loop_again:
  "validation_loop env st a n items = Inr (st', a', n')
   \<Longrightarrow> validation_loop env (st\<lparr>lossval := lossval st'\<rparr>) a n items = Inr (st', a', n')"
proof (induction env st a n items rule: validation_loop.induct)
  case (1 env st avg_loss val_steps)
  then show ?case by simp
next
  case (2 env st avg_loss val_steps e items)
  then show ?case by simp
next
  case (3 env st avg_loss val_steps x y items)
  then show ?case by (simp add: Let_def)
qed

lemma validation_loop_Inl:
  "validation_loop env st a n items = Inl (e, l) \<Longrightarrow> l = wandb st"
proof (induction env st a n items rule: validation_loop.induct)
  case (1 env st avg_loss val_steps)
  then show ?case by simp
next
  case (2 env st avg_loss val_steps e items)
  then show ?case by simp
next
  case (3 env st avg_loss val_steps x y items)
  then show ?case by (simp add: Let_def)
qed

lemma train_pass_map_Inr:
  "train_pass env opt st (map Inr bs) = Inr (foldl (train_step env opt) st bs)"
  by (induction bs arbitrary: st) simp_all

lemma foldl_train_step_lossval:
  assumes "bs \<noteq> []"
  shows "lossval (foldl (train_step env opt) st bs) =
     Some (loss_fn env (model_params (foldl (train_step env opt) st (butlast bs)))
             (fst (last bs)) (snd (last bs)))"
proof -
  from assms have "bs = butlast bs @ [last bs]" by simp
  then have "foldl (train_step env opt) st bs =
      train_step env opt (foldl (train_step env opt) st (butlast bs)) (last bs)"
    by (metis foldl_Cons foldl_Nil foldl_append)
  then show ?thesis by (simp add: train_step_fields)
qed

lemma true_divide_zero: "\<not> is_finite (true_divide v 0)"
  by (cases v) simp_all

lemma validation_loop_frame':
  assumes "validation_loop env st a n items = Inr (st', a', n')"
  shows "\<exists>lv. st' = st\<lparr>lossval := lv\<rparr>"
  using validation_loop_frame [OF assms] by blast

lemma validate_and_report_Inr:
  assumes "validate_and_report env st items = Inr st'"
  shows "\<exists>lv v. st' = st\<lparr>lossval := lv, wandb := wandb st @ [Scalar ''val_loss'' v (step st)]\<rparr>"
proof -
  from assms obtain r where
    run: "validation_loop env st (Finite 0) 0 items = Inr r" and
    rep: "(case r of (st1, avg_loss, val_steps) \<Rightarrow> report_val_loss st1 val_steps) = Inr st'"
    unfolding validate_and_report_def validation_pass_def
    by (blast dest: then_do_eq_Inr)
  obtain st1 a n where r: "r = (st1, a, n)" by (cases r)
  from validation_loop_frame' run r obtain lv where st1: "st1 = st\<lparr>lossval := lv\<rparr>"
    by blast
  from rep r obtain l where
    "st' = st1\<lparr>wandb := wandb st1 @ [Scalar ''val_loss'' (true_divide l n) (step st1)]\<rparr>"
    by (auto simp: report_val_loss_def split: option.splits)
  then have "st' = st\<lparr>lossval := lv,
      wandb := wandb st @ [Scalar ''val_loss'' (true_divide l n) (step st)]\<rparr>"
    by (simp add: st1)
  then show ?thesis by blast
qed

lemma validate_and_report_Inl:
  assumes "validate_and_report env st items = Inl (e, l)"
  shows "l = wandb st"
proof (cases "validation_loop env st (Finite 0) 0 items")
  case (Inl a)
  with assms have "a = (e, l)"
    by (simp add: validate_and_report_def validation_pass_def)
  with Inl show ?thesis by (simp add: validation_loop_Inl)
next
  case (Inr r)
  obtain st1 a n where r: "r = (st1, a, n)" by (cases r)
  from validation_loop_frame' Inr r obtain lv where st1: "st1 = st\<lparr>lossval := lv\<rparr>"
    by blast
  from assms Inr r have "report_val_loss st1 n = Inl (e, l)"
    by (simp add: validate_and_report_def validation_pass_def)
  then show ?thesis
    by (auto simp: report_val_loss_def st1 split: option.splits)
qed

lemma run_epoch_Inr:
  assumes "run_epoch env opt trd ted trl tel e st = Inr st'"
  shows "\<exists>st1 st2 st3.
           log_image env ''Training image'' trd st = Inr st1
         \<and> train_pass env opt st1 (data_loader_iter env trl e) = Inr st2
         \<and> validate_and_report env st2 (data_loader_iter env tel e) = Inr st3
         \<and> log_image env ''Validation image'' ted st3 = Inr st'"
proof -
  from assms obtain st1 where 1: "log_image env ''Training image'' trd st = Inr st1"
    and r1: "then_do (train_pass env opt st1 (data_loader_iter env trl e)) (\<lambda>st2.
       then_do (validate_and_report env st2 (data_loader_iter env tel e)) (\<lambda>st3.
       log_image env ''Validation image'' ted st3)) = Inr st'"
    unfolding run_epoch_def by (blast dest: then_do_eq_Inr)
  from r1 obtain st2 where 2: "train_pass env opt st1 (data_loader_iter env trl e) = Inr st2"
    and r2: "then_do (validate_and_report env st2 (data_loader_iter env tel e)) (\<lambda>st3.
       log_image env ''Validation image'' ted st3) = Inr st'"
    by (blast dest: then_do_eq_Inr)
  from r2 obtain st3 where 3: "validate_and_report env st2 (data_loader_iter env tel e) = Inr st3"
    and 4: "log_image env ''Validation image'' ted st3 = Inr st'"
    by (blast dest: then_do_eq_Inr)
  from 1 2 3 4 show ?thesis by blast
qed

text \<open>
  What a validation pass over the batches \<open>bs\<close> returns: \<^verbatim>\<open>lossval\<close> is the loss of the last
  batch, \<^verbatim>\<open>avg_loss\<close> the sum of the losses weighted by the batch lengths, and
  \<^verbatim>\<open>val_steps\<close> the number of batches.
\<close>

lemma validation_pass_map_Inr:
  "validation_pass env st (map Inr bs) =
     Inr (if bs = [] then st
          else st\<lparr>lossval := Some (loss_fn env (model_params st) (fst (last bs)) (snd (last bs)))\<rparr>,
          foldl (\<lambda>acc b. add acc (multiply (loss_fn env (model_params st) (fst b) (snd b))
                                    (length (fst b)))) (Finite 0) bs,
          length bs)"
  by (simp add: validation_pass_def validation_loop_map_Inr)

text \<open>The epoch loop hands the state one epoch ends with to the next epoch.\<close>

lemma epochs_Cons_Inr:
  "run_epoch env opt trd ted trl tel e st = Inr st1 \<Longrightarrow>
     epochs env opt trd ted trl tel (e # es) st = epochs env opt trd ted trl tel es st1"
  by simp

lemma validate_and_report_map_Inr:
  assumes "bs \<noteq> []"
  shows "validate_and_report env st (map Inr bs) =
     Inr (st\<lparr>lossval := Some (loss_fn env (model_params st) (fst (last bs)) (snd (last bs))),
             wandb := wandb st @ [Scalar ''val_loss''
               (true_divide (loss_fn env (model_params st) (fst (last bs)) (snd (last bs))) (length bs))
               (step st)]\<rparr>)"
  using assms
  by (simp add: validate_and_report_def validation_pass_def validation_loop_map_Inr report_val_loss_def)

lemma shows_index0_loss:
  "list_all (is_scalar name) ls \<Longrightarrow> list_all (shows_index0 trd ted) ls"
proof (induction ls)
  case Nil
  then show ?case by simp
next
  case (Cons a ls)
  then show ?case by (cases a) simp_all
qed

lemma log_image_logged:
  assumes "name = ''Training image'' \<and> s = trd \<or> name = ''Validation image'' \<and> s = ted"
  shows "\<exists>im. logged (log_image env name s st) = wandb st @ im
           \<and> reports key im = [] \<and> list_all (shows_index0 trd ted) im"
proof (cases "log_image env name s st")
  case (Inl a)
  obtain e l where "a = (e, l)" by (cases a)
  with Inl log_image_Inl [of env name s st e l] have "logged (log_image env name s st) = wandb st @ []"
    by simp
  then show ?thesis by force
next
  case (Inr st')
  from log_image_Inr [OF Inr] obtain x y p where
    s0: "subset_getitem s 0 = Inr (x, y)" and
    st': "st' = st\<lparr>wandb := wandb st @ [Image name (step st) x y p]\<rparr>"
    by blast
  have "logged (log_image env name s st) = wandb st @ [Image name (step st) x y p]"
    using Inr st' by simp
  moreover have "list_all (shows_index0 trd ted) [Image name (step st) x y p]"
    using assms s0 by auto
  moreover have "reports key [Image name (step st) x y p] = []"
    by simp
  ultimately show ?thesis by blast
qed

lemma run_epoch_logged:
  "\<exists>img ls rest. logged (run_epoch env opt trd ted trl tel e st) = wandb st @ img @ ls @ rest
      \<and> reports ''loss'' img = [] \<and> list_all (is_scalar ''loss'') ls
      \<and> map entry_step ls = [step st ..< step st + length ls]
      \<and> reports ''loss'' rest = []
      \<and> list_all (shows_index0 trd ted) (img @ ls @ rest)"
proof (cases "log_image env ''Training image'' trd st")
  case (Inl a)
  from log_image_logged [of "''Training image''" trd trd ted env st "''loss''"] obtain im where
    "logged (log_image env ''Training image'' trd st) = wandb st @ im"
    "reports ''loss'' im = []" "list_all (shows_index0 trd ted) im"
    by auto
  with Inl have "logged (run_epoch env opt trd ted trl tel e st) = wandb st @ im @ [] @ []"
    by (simp add: run_epoch_def)
  with \<open>reports ''loss'' im = []\<close> \<open>list_all (shows_index0 trd ted) im\<close>
  show ?thesis
    by (intro exI [of _ im] exI [of _ "[]"]) simp
next
  case (Inr st1)
  from log_image_Inr [OF Inr] obtain x0 y0 p0 where
    s0: "subset_getitem trd 0 = Inr (x0, y0)" and
    st1: "st1 = st\<lparr>wandb := wandb st @ [Image ''Training image'' (step st) x0 y0 p0]\<rparr>"
    by blast
  let ?img = "[Image ''Training image'' (step st) x0 y0 p0]"
  have img: "reports ''loss'' ?img = []" "list_all (shows_index0 trd ted) ?img"
    using s0 by simp_all
  let ?tp = "train_pass env opt st1 (data_loader_iter env trl e)"
  from train_pass_logged [of env opt st1 "data_loader_iter env trl e"] obtain ls where
    ls: "logged ?tp = wandb st1 @ ls" "list_all (is_scalar ''loss'') ls"
      "map entry_step ls = [step st1 ..< step st1 + length ls]"
      "\<forall>st'. ?tp = Inr st' \<longrightarrow> step st' = step st1 + length ls"
    by blast
  have steps: "map entry_step ls = [step st ..< step st + length ls]"
    using ls(3) st1 by simp
  have ok_ls: "list_all (shows_index0 trd ted) ls"
    using ls(2) by (rule shows_index0_loss)
  have epoch: "run_epoch env opt trd ted trl tel e st =
      then_do ?tp (\<lambda>st2.
        then_do (validate_and_report env st2 (data_loader_iter env tel e)) (\<lambda>st3.
          log_image env ''Validation image'' ted st3))"
    using Inr by (simp add: run_epoch_def)
  show ?thesis
  proof (cases ?tp)
    case (Inl a)
    with epoch ls(1) st1 have
      "logged (run_epoch env opt trd ted trl tel e st) = wandb st @ ?img @ ls @ []"
      by simp
    with img steps ls(2) ok_ls show ?thesis
      by (intro exI [of _ ?img] exI [of _ ls] exI [of _ "[]"]) simp
  next
    case tp: (Inr st2)
    with ls(1) st1 have w2: "wandb st2 = wandb st @ ?img @ ls" by simp
    let ?vr = "validate_and_report env st2 (data_loader_iter env tel e)"
    show ?thesis
    proof (cases ?vr)
      case (Inl a)
      obtain err l where a: "a = (err, l)" by (cases a)
      with Inl validate_and_report_Inl have "l = wandb st2" by blast
      with epoch tp Inl a w2 have
        "logged (run_epoch env opt trd ted trl tel e st) = wandb st @ ?img @ ls @ []"
        by simp
      with img steps ls(2) ok_ls show ?thesis
        by (intro exI [of _ ?img] exI [of _ ls] exI [of _ "[]"]) simp
    next
      case vr: (Inr st3)
      from validate_and_report_Inr [OF vr] obtain lv v where
        st3: "st3 = st2\<lparr>lossval := lv, wandb := wandb st2 @ [Scalar ''val_loss'' v (step st2)]\<rparr>"
        by blast
      from log_image_logged [of "''Validation image''" ted trd ted env st3 "''loss''"]
      obtain im where im:
        "logged (log_image env ''Validation image'' ted st3) = wandb st3 @ im"
        "reports ''loss'' im = []" "list_all (shows_index0 trd ted) im"
        by auto
      let ?rest = "Scalar ''val_loss'' v (step st2) # im"
      from epoch tp vr im(1) st3 w2 have
        "logged (run_epoch env opt trd ted trl tel e st) = wandb st @ ?img @ ls @ ?rest"
        by simp
      moreover have "reports ''loss'' ?rest = []" "list_all (shows_index0 trd ted) ?rest"
        using im(2,3) by simp_all
      ultimately show ?thesis
        using img steps ls(2) ok_ls
        by (intro exI [of _ ?img] exI [of _ ls] exI [of _ ?rest]) simp
    qed
  qed
qed


lemma epochs_logged:
  "\<exists>new. logged (epochs env opt trd ted trl tel es st) = wandb st @ new
      \<and> list_all (shows_index0 trd ted) new"
proof (induction es arbitrary: st)
  case Nil
  then show ?case by simp
next
  case (Cons e es)
  from run_epoch_logged [of env opt trd ted trl tel e st] obtain img ls rest where
    first: "logged (run_epoch env opt trd ted trl tel e st) = wandb st @ img @ ls @ rest"
      "list_all (shows_index0 trd ted) (img @ ls @ rest)"
    by blast
  show ?case
  proof (cases "run_epoch env opt trd ted trl tel e st")
    case (Inl a)
    with first show ?thesis by auto
  next
    case (Inr st1)
    from Cons.IH [of st1] obtain new where
      new: "logged (epochs env opt trd ted trl tel es st1) = wandb st1 @ new"
        "list_all (shows_index0 trd ted) new"
      by blast
    from Inr first(1) have "wandb st1 = wandb st @ img @ ls @ rest" by simp
    with Inr new(1) have
      "logged (epochs env opt trd ted trl tel (e # es) st) = wandb st @ (img @ ls @ rest) @ new"
      by simp
    moreover have "list_all (shows_index0 trd ted) ((img @ ls @ rest) @ new)"
      using first(2) new(2) by simp
    ultimately show ?thesis by blast
  qed
qed

text \<open>The images of a completed epoch, and of a completed loop.\<close>

lemma image_names_append [simp]: "image_names (l1 @ l2) = image_names l1 @ image_names l2"
  by (induction l1 rule: image_names.induct) simp_all

lemma image_names_scalars: "list_all (is_scalar name) ls \<Longrightarrow> image_names ls = []"
  by (induction ls rule: image_names.induct) simp_all

lemma log_image_Inr_pred:
  assumes "log_image env name s st = Inr st'"
  shows "\<exists>x y p. subset_getitem s 0 = Inr (x, y)
           \<and> getitem (model_apply env (model_params st) (expand_dims x)) 0 = Inr p
           \<and> st' = st\<lparr>wandb := wandb st @ [Image name (step st) x y p]\<rparr>"
  using assms
  by (auto simp: log_image_def expand_dims_def Let_def split: sum.splits prod.splits)

lemma run_epoch_images:
  assumes "run_epoch env opt trd ted trl tel e st = Inr st1"
  shows "\<exists>x0 y0 p0 x1 y1 p1 ms.
           subset_getitem trd 0 = Inr (x0, y0) \<and> subset_getitem ted 0 = Inr (x1, y1)
         \<and> getitem (model_apply env (model_params st) (expand_dims x0)) 0 = Inr p0
         \<and> getitem (model_apply env (model_params st1) (expand_dims x1)) 0 = Inr p1
         \<and> appended st (Inr st1) =
             Image ''Training image'' (step st) x0 y0 p0 # ms
               @ [Image ''Validation image'' (step st1) x1 y1 p1]
         \<and> image_names ms = []"
proof -
  from run_epoch_Inr [OF assms] obtain s1 s2 s3 where
    1: "log_image env ''Training image'' trd st = Inr s1" and
    2: "train_pass env opt s1 (data_loader_iter env trl e) = Inr s2" and
    3: "validate_and_report env s2 (data_loader_iter env tel e) = Inr s3" and
    4: "log_image env ''Validation image'' ted s3 = Inr st1"
    by blast
  from log_image_Inr_pred [OF 1] obtain x0 y0 p0 where
    t0: "subset_getitem trd 0 = Inr (x0, y0)" and
    p0: "getitem (model_apply env (model_params st) (expand_dims x0)) 0 = Inr p0" and
    s1: "s1 = st\<lparr>wandb := wandb st @ [Image ''Training image'' (step st) x0 y0 p0]\<rparr>"
    by blast
  from train_pass_logged [of env opt s1 "data_loader_iter env trl e"] 2 obtain ls where
    ls: "wandb s2 = wandb s1 @ ls" "list_all (is_scalar ''loss'') ls"
    by auto
  from validate_and_report_Inr [OF 3] obtain lv v where
    s3: "s3 = s2\<lparr>lossval := lv, wandb := wandb s2 @ [Scalar ''val_loss'' v (step s2)]\<rparr>"
    by blast
  from log_image_Inr_pred [OF 4] obtain x1 y1 p1 where
    t1: "subset_getitem ted 0 = Inr (x1, y1)" and
    p1: "getitem (model_apply env (model_params s3) (expand_dims x1)) 0 = Inr p1" and
    st1: "st1 = s3\<lparr>wandb := wandb s3 @ [Image ''Validation image'' (step s3) x1 y1 p1]\<rparr>"
    by blast
  have same: "model_params st1 = model_params s3" "step st1 = step s3"
    using st1 by simp_all
  let ?ms = "ls @ [Scalar ''val_loss'' v (step s2)]"
  have "wandb st1 = wandb st @ (Image ''Training image'' (step st) x0 y0 p0 # ?ms
      @ [Image ''Validation image'' (step st1) x1 y1 p1])"
    using st1 s3 ls(1) s1 by simp
  then have shape: "appended st (Inr st1) = Image ''Training image'' (step st) x0 y0 p0 # ?ms
      @ [Image ''Validation image'' (step st1) x1 y1 p1]"
    by (simp add: appended_def)
  have names: "image_names ?ms = []"
    using image_names_scalars [OF ls(2)] by simp
  from t0 t1 p0 p1 same shape names show ?thesis
    by (intro exI [of _ x0] exI [of _ y0] exI [of _ p0] exI [of _ x1] exI [of _ y1]
        exI [of _ p1] exI [of _ ?ms]) simp
qed

lemma epochs_image_names:
  "epochs env opt trd ted trl tel es st = Inr st' \<Longrightarrow>
     image_names (appended st (Inr st'))
       = concat (replicate (length es) [''Training image'', ''Validation image''])"
proof (induction es arbitrary: st)
  case Nil
  then show ?case by (simp add: appended_def)
next
  case (Cons e es)
  from Cons.prems obtain st1 where
    first: "run_epoch env opt trd ted trl tel e st = Inr st1" and
    rest: "epochs env opt trd ted trl tel es st1 = Inr st'"
    by (auto dest: then_do_eq_Inr)
  from run_epoch_images [OF first] obtain x0 y0 p0 x1 y1 p1 ms where
    one: "appended st (Inr st1) = Image ''Training image'' (step st) x0 y0 p0 # ms
        @ [Image ''Validation image'' (step st1) x1 y1 p1]"
      "image_names ms = []"
    by blast
  from run_epoch_logged [of env opt trd ted trl tel e st] first obtain new1 where
    w1: "wandb st1 = wandb st @ new1"
    by auto
  from epochs_logged [of env opt trd ted trl tel es st1] rest obtain new2 where
    w2: "wandb st' = wandb st1 @ new2"
    by auto
  have a1: "appended st (Inr st1) = new1" and a2: "appended st1 (Inr st') = new2"
    using w1 w2 by (simp_all add: appended_def)
  have "appended st (Inr st') = new1 @ new2"
    using w1 w2 by (simp add: appended_def)
  moreover have "image_names new1 = [''Training image'', ''Validation image'']"
    using one a1 by simp
  moreover have "image_names new2
      = concat (replicate (length es) [''Training image'', ''Validation image''])"
    using Cons.IH [OF rest] a2 by simp
  ultimately show ?case by simp
qed

subsection \<open>The two readings of the lengths\<close>

lemma fraction_lengths_one:
  "n_tr + n_ev = 1 \<Longrightarrow> fraction_lengths N n_tr n_ev = (N * n_tr, N * n_ev)"
proof -
  assume "n_tr + n_ev = 1"
  then have "N * n_tr + N * n_ev = N"
    by (metis distrib_left mult.right_neutral)
  then show ?thesis by (simp add: fraction_lengths_def Let_def)
qed

lemma random_split_counts:
  "n_tr + n_ev \<noteq> 1 \<Longrightarrow> random_split N n_tr n_ev perm =
     (if n_tr + n_ev \<noteq> N then Inl ValueError
      else Inr (take n_tr perm, take n_ev (drop n_tr perm)))"
  by (simp add: random_split_def)

lemma random_split_fractions:
  "n_tr + n_ev = 1 \<Longrightarrow> random_split N n_tr n_ev perm =
     Inr (take (N * n_tr) perm, take (N * n_ev) (drop (N * n_tr) perm))"
proof -
  assume one: "n_tr + n_ev = 1"
  then have "N * n_tr + N * n_ev = N"
    by (metis distrib_left mult.right_neutral)
  with one show ?thesis
    by (simp add: random_split_def fraction_lengths_one)
qed

lemma random_split_sum:
  assumes "n_tr + n_ev = N"
  shows "random_split N n_tr n_ev perm = Inr (take n_tr perm, take n_ev (drop n_tr perm))"
proof (cases "n_tr + n_ev = 1")
  case True
  with assms have "N = 1" by simp
  with True show ?thesis by (simp add: random_split_fractions)
next
  case False
  with assms show ?thesis by (simp add: random_split_counts)
qed

subsection \<open>Batches of indices\<close>

lemma batch_sampler_short:
  "0 < B \<Longrightarrow> length order < B \<Longrightarrow>
     batch_sampler B drop_last order = (if order = [] \<or> drop_last then [] else [order])"
  by (subst batch_sampler.simps) auto

lemma batch_sampler_long:
  "0 < B \<Longrightarrow> B \<le> length order \<Longrightarrow>
     batch_sampler B drop_last order = take B order # batch_sampler B drop_last (drop B order)"
  by (subst batch_sampler.simps) auto

lemma batch_sampler_drop_all:
  "0 < B \<Longrightarrow> list_all (\<lambda>b. length b = B) (batch_sampler B True order)"
proof (induction order rule: length_induct)
  case (1 order)
  show ?case
  proof (cases "length order < B")
    case True
    with 1(2) show ?thesis by (simp add: batch_sampler_short)
  next
    case False
    with 1(2) have "length (drop B order) < length order" by simp
    with 1 have "list_all (\<lambda>b. length b = B) (batch_sampler B True (drop B order))"
      by blast
    with False 1(2) show ?thesis by (simp add: batch_sampler_long)
  qed
qed

lemma batch_sampler_drop_length:
  "0 < B \<Longrightarrow> length (batch_sampler B True order) = length order div B"
proof (induction order rule: length_induct)
  case (1 order)
  show ?case
  proof (cases "length order < B")
    case True
    with 1(2) show ?thesis by (simp add: batch_sampler_short)
  next
    case False
    with 1(2) have "length (drop B order) < length order" by simp
    with 1 have "length (batch_sampler B True (drop B order)) = length (drop B order) div B"
      by blast
    with False 1(2) show ?thesis by (simp add: batch_sampler_long le_div_geq)
  qed
qed

lemma batch_sampler_keep_last:
  "0 < B \<Longrightarrow> order \<noteq> [] \<Longrightarrow>
     batch_sampler B False order \<noteq> []
     \<and> length (last (batch_sampler B False order))
         = (if length order mod B \<noteq> 0 then length order mod B else B)"
proof (induction order rule: length_induct)
  case (1 order)
  show ?case
  proof (cases "length order < B")
    case True
    with 1(2,3) show ?thesis by (simp add: batch_sampler_short)
  next
    case False
    then have ge: "B \<le> length order" by simp
    have unfold: "batch_sampler B False order = take B order # batch_sampler B False (drop B order)"
      using 1(2) ge by (rule batch_sampler_long)
    show ?thesis
    proof (cases "drop B order = []")
      case True
      with ge have "length order = B" by simp
      moreover have "batch_sampler B False [] = []"
        using 1(2) by (simp add: batch_sampler_short)
      ultimately show ?thesis using unfold True 1(2) by simp
    next
      case nonempty: False
      from 1(2) ge have "length (drop B order) < length order" by simp
      with 1 nonempty have IH: "batch_sampler B False (drop B order) \<noteq> []"
        "length (last (batch_sampler B False (drop B order)))
           = (if length (drop B order) mod B \<noteq> 0 then length (drop B order) mod B else B)"
        by blast+
      have "length (drop B order) mod B = length order mod B"
        using ge by (simp add: le_mod_geq)
      with IH unfold show ?thesis by simp
    qed
  qed
qed

subsection \<open>The small instance, run\<close>

lemma example_env_fields [simp]:
  "collate_fn (example_env perm sampler) samples = (map fst samples, map snd samples)"
  "model_init (example_env perm sampler) xs = 0"
  "model_apply (example_env perm sampler) w xs = map (\<lambda>x. w * x) xs"
  "jax_grad (example_env perm sampler) f w =
     (case (f (w + 1), f (w - 1)) of (Finite a, Finite b) \<Rightarrow> (a - b) / 2 | _ \<Rightarrow> 0)"
  "opt_init (adamw (example_env perm sampler) lr wd) w = 0"
  "opt_update (adamw (example_env perm sampler) lr wd) g k w = (- lr * (g + wd * w), k + 1)"
  "apply_updates (example_env perm sampler) w u = w + u"
  "randperm (example_env perm sampler) = perm"
  "random_sampler (example_env perm sampler) = sampler"
  by (simp_all add: example_env_def)

lemma example_test_items:
  "data_loader_iter example_run_env example_test_loader e = map Inr [([5, 2], [10, 4]), ([3], [6])]"
  by (simp add: data_loader_iter_def sampler_order_def example_test_loader_def
      example_test_dataset_def example_dataset_def fetch_def subset_getitem_def getitem_def
      example_run_env_def upt_rec batch_sampler.simps)

lemma example_train_items:
  "data_loader_iter example_run_env example_train_loader 0 = map Inr [([4, 1], [8, 2])]"
  by (simp add: data_loader_iter_def sampler_order_def example_train_loader_def
      example_train_dataset_def example_dataset_def fetch_def subset_getitem_def getitem_def
      example_run_env_def batch_sampler.simps)

lemma example_epoch:
  "run_epoch example_run_env example_optimizer example_train_dataset example_test_dataset
     example_train_loader example_test_loader 0 example_start = Inr example_after_epoch"
  apply (simp add: run_epoch_def example_test_items example_train_items)
  apply (simp add: log_image_def subset_getitem_def getitem_def expand_dims_def
      example_train_dataset_def example_test_dataset_def example_dataset_def example_start_def
      example_after_epoch_def train_step_def update_def value_and_grad_def
      validate_and_report_def validation_pass_def report_val_loss_def Let_def
      example_optimizer_def example_run_env_def)
  done

lemma example_train_items_1:
  "data_loader_iter example_run_env example_train_loader (Suc 0) = map Inr [([1, 4], [2, 8])]"
  by (simp add: data_loader_iter_def sampler_order_def example_train_loader_def
      example_train_dataset_def example_dataset_def fetch_def subset_getitem_def getitem_def
      example_run_env_def batch_sampler.simps)

lemma example_second_epoch:
  "run_epoch example_run_env example_optimizer example_train_dataset example_test_dataset
     example_train_loader example_test_loader (Suc 0) example_after_epoch
     = Inr example_after_second_epoch"
  apply (simp add: run_epoch_def example_test_items example_train_items_1)
  apply (simp add: log_image_def subset_getitem_def getitem_def expand_dims_def
      example_train_dataset_def example_test_dataset_def example_dataset_def
      example_after_epoch_def example_after_second_epoch_def train_step_def update_def
      value_and_grad_def validate_and_report_def validation_pass_def report_val_loss_def Let_def
      example_optimizer_def example_run_env_def)
  done

lemma example_epochs:
  "epochs example_run_env example_optimizer example_train_dataset example_test_dataset
     example_train_loader example_test_loader [0, Suc 0] example_start
     = Inr example_after_second_epoch"
  by (simp add: example_epoch example_second_epoch)

text \<open>
  The subsets and loaders of the small instance are the ones \<^verbatim>\<open>main\<close> builds from the
  example dataset, and its two epochs are the run of \<^verbatim>\<open>main\<close>.
\<close>

lemma example_main:
  "main_with example_settings example_run_env example_dataset = Inr example_after_second_epoch"
proof -
  have "main_with example_settings example_run_env example_dataset =
      epochs example_run_env example_optimizer example_train_dataset example_test_dataset
        example_train_loader example_test_loader [0, Suc 0] example_start"
    by (simp add: main_with_def random_split_def DataLoader_def example_settings_def
        example_dataset_def example_train_dataset_def example_test_dataset_def
        example_train_loader_def example_test_loader_def example_optimizer_def
        example_start_def subset_getitem_def getitem_def expand_dims_def example_run_env_def
        upt_rec numeral_2_eq_2 Let_def)
  then show ?thesis by (simp only: example_epochs)
qed

lemma no_eval_train_items:
  "data_loader_iter example_run_env no_eval_train_loader 0 = map Inr [([4, 1], [8, 2])]"
  by (simp add: data_loader_iter_def sampler_order_def no_eval_train_loader_def
      no_eval_train_dataset_def no_eval_dataset_def fetch_def subset_getitem_def getitem_def
      example_run_env_def batch_sampler.simps)

lemma no_eval_test_items:
  "data_loader_iter example_run_env no_eval_test_loader 0 = []"
  by (simp add: data_loader_iter_def sampler_order_def no_eval_test_loader_def
      no_eval_test_dataset_def batch_sampler.simps)

lemma no_eval_image:
  "log_image example_run_env ''Training image'' no_eval_train_dataset example_start
     = Inr (example_start\<lparr>wandb := [Image ''Training image'' 0 4 8 0]\<rparr>)"
  by (simp add: log_image_def subset_getitem_def getitem_def expand_dims_def
      no_eval_train_dataset_def no_eval_dataset_def example_start_def example_run_env_def)

subsection \<open>Validation changes nothing but \<^verbatim>\<open>lossval\<close>\<close>

text \<open>
  Claim C7. A validation pass (lines 117 to 128) that returns leaves the parameters,
  the optimizer state, the step counter and the log as they were; run again from the
  state it left, on the same items, it returns the same \<^verbatim>\<open>lossval\<close>, the same
  \<^verbatim>\<open>avg_loss\<close> and the same \<^verbatim>\<open>val_steps\<close>.
\<close>

theorem validation_pass_idempotent:
  assumes "validation_pass env st items = Inr (st', avg_loss, val_steps)"
  shows "model_params st' = model_params st \<and> opt_state st' = opt_state st
       \<and> step st' = step st \<and> wandb st' = wandb st
       \<and> validation_pass env st' items = Inr (st', avg_loss, val_steps)"
proof -
  from assms have run: "validation_loop env st (Finite 0) 0 items = Inr (st', avg_loss, val_steps)"
    by (simp add: validation_pass_def)
  have frame: "st' = st\<lparr>lossval := lossval st'\<rparr>"
    using validation_loop_frame [OF run] .
  have "validation_loop env (st\<lparr>lossval := lossval st'\<rparr>) (Finite 0) 0 items
      = Inr (st', avg_loss, val_steps)"
    using validation_loop_again [OF run] .
  with frame have again: "validation_pass env st' items = Inr (st', avg_loss, val_steps)"
    by (simp add: validation_pass_def)
  have "model_params st' = model_params (st\<lparr>lossval := lossval st'\<rparr>)"
       "opt_state st' = opt_state (st\<lparr>lossval := lossval st'\<rparr>)"
       "step st' = step (st\<lparr>lossval := lossval st'\<rparr>)"
       "wandb st' = wandb (st\<lparr>lossval := lossval st'\<rparr>)"
    using frame by simp_all
  with again show ?thesis by simp
qed

theorem validation_pass_idempotent_witness:
  "validation_pass (example_env [] (\<lambda>e. [])) example_state [Inr ([1, 2], [2, 4]), Inr ([3], [6])]
     = Inr (example_state\<lparr>lossval := Some (Finite 9)\<rparr>, Finite 14, 2)
   \<and> model_params (example_state\<lparr>lossval := Some (Finite 9)\<rparr>) = model_params example_state
   \<and> validation_pass (example_env [] (\<lambda>e. [])) (example_state\<lparr>lossval := Some (Finite 9)\<rparr>)
        [Inr ([1, 2], [2, 4]), Inr ([3], [6])]
     = Inr (example_state\<lparr>lossval := Some (Finite 9)\<rparr>, Finite 14, 2)"
proof -
  have run: "validation_pass (example_env [] (\<lambda>e. [])) example_state
       [Inr ([1, 2], [2, 4]), Inr ([3], [6])]
     = Inr (example_state\<lparr>lossval := Some (Finite 9)\<rparr>, Finite 14, 2)"
    by (simp add: validation_pass_def example_state_def Let_def)
  from validation_pass_idempotent [OF run] run show ?thesis by simp
qed

subsection \<open>The update step\<close>

text \<open>
  Claim C2. The update step (lines 80 to 84) computes the loss as the mean of the
  squared differences between \<open>y\<close> and the model's prediction for \<open>x\<close>, takes the gradient
  of that loss with respect to the parameters at the current parameters, hands that
  gradient to the optimizer, and returns the parameters with the optimizer's updates
  applied, the optimizer's new state, and the loss at the parameters it was given.
\<close>

theorem update_step:
  "update env optimizer params s x y =
     (let loss = (\<lambda>p. jnp_mean env (jnp_square env (jnp_subtract env y (model_apply env p x))));
          grads = jax_grad env loss params;
          stepped = opt_update optimizer grads s params
      in (apply_updates env params (fst stepped), snd stepped, loss params))"
  by (simp add: update_def value_and_grad_def loss_fn_def Let_def split: prod.splits)

theorem update_step_witness:
  "update (example_env [] (\<lambda>e. [])) (adamw (example_env [] (\<lambda>e. [])) (1 / 10) 0) 0 0 [4, 1] [8, 2]
     = (17 / 5, 1, Finite 34)"
  using update_step [of "example_env [] (\<lambda>e. [])" "adamw (example_env [] (\<lambda>e. [])) (1 / 10) 0" 0 0 "[4, 1]" "[8, 2]"]
  by (simp add: example_env_def Let_def)

subsection \<open>The reported validation loss\<close>

text \<open>
  Claim C1. In an epoch that completes and whose evaluation loader yields the batches
  \<open>bs\<close>, at least one, the only metric reported under \<^verbatim>\<open>val_loss\<close> is the loss of the
  last batch of \<open>bs\<close> divided by the number of batches, at the parameters the epoch ends
  with; the weighted sum \<^verbatim>\<open>avg_loss\<close> does not occur in it.
\<close>

theorem val_loss_reported:
  assumes "run_epoch env opt trd ted trl tel e st = Inr st'"
    and "data_loader_iter env tel e = map Inr bs"
    and "bs \<noteq> []"
  shows "reports ''val_loss'' (appended st (Inr st')) =
     [Scalar ''val_loss''
        (true_divide (loss_fn env (model_params st') (fst (last bs)) (snd (last bs))) (length bs))
        (step st')]"
proof -
  from run_epoch_Inr [OF assms(1)] obtain st1 st2 st3 where
    1: "log_image env ''Training image'' trd st = Inr st1" and
    2: "train_pass env opt st1 (data_loader_iter env trl e) = Inr st2" and
    3: "validate_and_report env st2 (data_loader_iter env tel e) = Inr st3" and
    4: "log_image env ''Validation image'' ted st3 = Inr st'"
    by blast
  from log_image_Inr [OF 1] obtain x0 y0 p0 where
    st1: "st1 = st\<lparr>wandb := wandb st @ [Image ''Training image'' (step st) x0 y0 p0]\<rparr>"
    by blast
  from train_pass_logged [of env opt st1 "data_loader_iter env trl e"] 2 obtain ls where
    ls: "wandb st2 = wandb st1 @ ls" "list_all (is_scalar ''loss'') ls"
    by auto
  let ?L = "loss_fn env (model_params st2) (fst (last bs)) (snd (last bs))"
  from 3 assms(2,3) have st3: "st3 = st2\<lparr>lossval := Some ?L,
      wandb := wandb st2 @ [Scalar ''val_loss'' (true_divide ?L (length bs)) (step st2)]\<rparr>"
    by (simp add: validate_and_report_map_Inr)
  from log_image_Inr [OF 4] obtain x1 y1 p1 where
    st': "st' = st3\<lparr>wandb := wandb st3 @ [Image ''Validation image'' (step st3) x1 y1 p1]\<rparr>"
    by blast
  have params: "model_params st' = model_params st2" and step: "step st' = step st2"
    using st' st3 by simp_all
  have "wandb st' = wandb st @ ([Image ''Training image'' (step st) x0 y0 p0] @ ls
      @ [Scalar ''val_loss'' (true_divide ?L (length bs)) (step st2),
         Image ''Validation image'' (step st3) x1 y1 p1])"
    using st' st3 ls(1) st1 by simp
  then have "appended st (Inr st') = [Image ''Training image'' (step st) x0 y0 p0] @ ls
      @ [Scalar ''val_loss'' (true_divide ?L (length bs)) (step st2),
         Image ''Validation image'' (step st3) x1 y1 p1]"
    by (simp add: appended_def)
  then show ?thesis
    using reports_other [OF ls(2), of "''val_loss''"] params step by simp
qed


theorem val_loss_reported_witness:
  "run_epoch example_run_env example_optimizer example_train_dataset example_test_dataset
     example_train_loader example_test_loader 0 example_start = Inr example_after_epoch
   \<and> reports ''val_loss'' (appended example_start (Inr example_after_epoch))
     = [Scalar ''val_loss'' (Finite (441 / 50)) 1]"
proof (rule conjI)
  show "run_epoch example_run_env example_optimizer example_train_dataset example_test_dataset
     example_train_loader example_test_loader 0 example_start = Inr example_after_epoch"
    by (rule example_epoch)
  show "reports ''val_loss'' (appended example_start (Inr example_after_epoch))
     = [Scalar ''val_loss'' (Finite (441 / 50)) 1]"
    using val_loss_reported [OF example_epoch example_test_items]
    by (simp add: example_after_epoch_def example_run_env_def)
qed

subsection \<open>The reference samples\<close>

text \<open>
  Claim C8. The two subsets are fixed before the epoch loop (lines 92 to 136), and:
  \<^item> whatever the loop logs, in any of its epochs and however it ends, every entry logged
    as \<^verbatim>\<open>Training image\<close> carries the input and target of \<^verbatim>\<open>train_dataset[0]\<close> and every
    entry logged as \<^verbatim>\<open>Validation image\<close> those of \<^verbatim>\<open>test_dataset[0]\<close>;
  \<^item> a loop that completes has logged, for each of its epochs in turn, one
    \<^verbatim>\<open>Training image\<close> and then one \<^verbatim>\<open>Validation image\<close>, and no other image;
  \<^item> an epoch that completes has logged first the \<^verbatim>\<open>Training image\<close>, with the sample
    \<^verbatim>\<open>train_dataset[0]\<close> and its prediction under the parameters the epoch started with,
    and last the \<^verbatim>\<open>Validation image\<close>, with the sample \<^verbatim>\<open>test_dataset[0]\<close> and its
    prediction under the parameters the epoch ends with, and no image in between.
\<close>

theorem images_show_index0:
  "list_all (shows_index0 trd ted) (appended st (epochs env opt trd ted trl tel es st))
   \<and> (epochs env opt trd ted trl tel es st = Inr st' \<longrightarrow>
        image_names (appended st (Inr st'))
          = concat (replicate (length es) [''Training image'', ''Validation image'']))
   \<and> (run_epoch env opt trd ted trl tel e st = Inr st1 \<longrightarrow>
        (\<exists>x0 y0 p0 x1 y1 p1 ms.
            subset_getitem trd 0 = Inr (x0, y0) \<and> subset_getitem ted 0 = Inr (x1, y1)
          \<and> getitem (model_apply env (model_params st) (expand_dims x0)) 0 = Inr p0
          \<and> getitem (model_apply env (model_params st1) (expand_dims x1)) 0 = Inr p1
          \<and> appended st (Inr st1) =
              Image ''Training image'' (step st) x0 y0 p0 # ms
                @ [Image ''Validation image'' (step st1) x1 y1 p1]
          \<and> image_names ms = []))"
proof (intro conjI impI)
  from epochs_logged [of env opt trd ted trl tel es st] obtain new where
    "logged (epochs env opt trd ted trl tel es st) = wandb st @ new"
    "list_all (shows_index0 trd ted) new"
    by blast
  then show "list_all (shows_index0 trd ted) (appended st (epochs env opt trd ted trl tel es st))"
    by (simp add: appended_def)
next
  assume "epochs env opt trd ted trl tel es st = Inr st'"
  then show "image_names (appended st (Inr st'))
      = concat (replicate (length es) [''Training image'', ''Validation image''])"
    by (rule epochs_image_names)
next
  assume "run_epoch env opt trd ted trl tel e st = Inr st1"
  then show "\<exists>x0 y0 p0 x1 y1 p1 ms.
            subset_getitem trd 0 = Inr (x0, y0) \<and> subset_getitem ted 0 = Inr (x1, y1)
          \<and> getitem (model_apply env (model_params st) (expand_dims x0)) 0 = Inr p0
          \<and> getitem (model_apply env (model_params st1) (expand_dims x1)) 0 = Inr p1
          \<and> appended st (Inr st1) =
              Image ''Training image'' (step st) x0 y0 p0 # ms
                @ [Image ''Validation image'' (step st1) x1 y1 p1]
          \<and> image_names ms = []"
    by (rule run_epoch_images)
qed

theorem images_show_index0_witness:
  "epochs example_run_env example_optimizer example_train_dataset example_test_dataset
     example_train_loader example_test_loader [0, Suc 0] example_start
     = Inr example_after_second_epoch
   \<and> list_all (shows_index0 example_train_dataset example_test_dataset)
       (appended example_start
          (epochs example_run_env example_optimizer example_train_dataset example_test_dataset
             example_train_loader example_test_loader [0, Suc 0] example_start))
   \<and> image_names (appended example_start (Inr example_after_second_epoch))
       = [''Training image'', ''Validation image'', ''Training image'', ''Validation image'']
   \<and> subset_getitem example_train_dataset 0 = Inr (4, 8)
   \<and> subset_getitem example_test_dataset 0 = Inr (5, 10)
   \<and> appended example_start (Inr example_after_second_epoch)
       = [Image ''Training image'' 0 4 8 0, Scalar ''loss'' (Finite 34) 0,
          Scalar ''val_loss'' (Finite (441 / 50)) 1, Image ''Validation image'' 1 5 10 17,
          Image ''Training image'' 1 4 8 (68 / 5), Scalar ''loss'' (Finite (833 / 50)) 1,
          Scalar ''val_loss'' (Finite (21609 / 5000)) 2,
          Image ''Validation image'' 2 5 10 (51 / 10)]"
proof -
  note inst = images_show_index0 [of example_train_dataset example_test_dataset example_start
      example_run_env example_optimizer example_train_loader example_test_loader "[0, Suc 0]"
      example_after_second_epoch 0 example_after_epoch]
  from inst have safe: "list_all (shows_index0 example_train_dataset example_test_dataset)
       (appended example_start
          (epochs example_run_env example_optimizer example_train_dataset example_test_dataset
             example_train_loader example_test_loader [0, Suc 0] example_start))"
    by blast
  from inst example_epochs have names:
    "image_names (appended example_start (Inr example_after_second_epoch))
       = concat (replicate (length [0 :: nat, Suc 0]) [''Training image'', ''Validation image''])"
    by blast
  have items: "subset_getitem example_train_dataset 0 = Inr (4, 8)"
    "subset_getitem example_test_dataset 0 = Inr (5, 10)"
    by (simp_all add: subset_getitem_def getitem_def example_train_dataset_def
        example_test_dataset_def example_dataset_def)
  have log: "appended example_start (Inr example_after_second_epoch)
       = [Image ''Training image'' 0 4 8 0, Scalar ''loss'' (Finite 34) 0,
          Scalar ''val_loss'' (Finite (441 / 50)) 1, Image ''Validation image'' 1 5 10 17,
          Image ''Training image'' 1 4 8 (68 / 5), Scalar ''loss'' (Finite (833 / 50)) 1,
          Scalar ''val_loss'' (Finite (21609 / 5000)) 2,
          Image ''Validation image'' 2 5 10 (51 / 10)]"
    by (simp add: appended_def example_start_def example_after_second_epoch_def)
  from names have names': "image_names (appended example_start (Inr example_after_second_epoch))
       = [''Training image'', ''Validation image'', ''Training image'', ''Validation image'']"
    by simp
  from example_epochs safe names' items log show ?thesis by blast
qed

subsection \<open>The step key of the validation report\<close>

text \<open>
  Claim C10. If epoch \<open>e\<close> completes in state \<open>st1\<close>, its \<^verbatim>\<open>val_loss\<close> metric was reported
  at the step \<open>step st1\<close>; epoch \<open>e + 1\<close> starts from \<open>st1\<close>, its \<^verbatim>\<open>loss\<close> metrics are reported
  at the consecutive steps from \<open>step st1\<close> on, and so the first of them, if the epoch
  reports any, has the step key of the \<^verbatim>\<open>val_loss\<close> report of epoch \<open>e\<close>.
\<close>

theorem step_shared:
  assumes "run_epoch env opt trd ted trl tel e st = Inr st1"
  shows "map entry_step (reports ''val_loss'' (appended st (Inr st1))) = [step st1]
       \<and> map entry_step (reports ''loss''
             (appended st1 (run_epoch env opt trd ted trl tel (Suc e) st1)))
           = [step st1 ..< step st1 + length (reports ''loss''
               (appended st1 (run_epoch env opt trd ted trl tel (Suc e) st1)))]
       \<and> (reports ''loss'' (appended st1 (run_epoch env opt trd ted trl tel (Suc e) st1)) \<noteq> []
           \<longrightarrow> entry_step (hd (reports ''loss''
                 (appended st1 (run_epoch env opt trd ted trl tel (Suc e) st1)))) = step st1)"
proof -
  from run_epoch_Inr [OF assms] obtain s1 s2 s3 where
    1: "log_image env ''Training image'' trd st = Inr s1" and
    2: "train_pass env opt s1 (data_loader_iter env trl e) = Inr s2" and
    3: "validate_and_report env s2 (data_loader_iter env tel e) = Inr s3" and
    4: "log_image env ''Validation image'' ted s3 = Inr st1"
    by blast
  from log_image_Inr [OF 1] obtain x0 y0 p0 where
    s1: "s1 = st\<lparr>wandb := wandb st @ [Image ''Training image'' (step st) x0 y0 p0]\<rparr>"
    by blast
  from train_pass_logged [of env opt s1 "data_loader_iter env trl e"] 2 obtain ls where
    ls: "wandb s2 = wandb s1 @ ls" "list_all (is_scalar ''loss'') ls"
    by auto
  from validate_and_report_Inr [OF 3] obtain lv v where
    s3: "s3 = s2\<lparr>lossval := lv, wandb := wandb s2 @ [Scalar ''val_loss'' v (step s2)]\<rparr>"
    by blast
  from log_image_Inr [OF 4] obtain x1 y1 p1 where
    st1: "st1 = s3\<lparr>wandb := wandb s3 @ [Image ''Validation image'' (step s3) x1 y1 p1]\<rparr>"
    by blast
  have step: "step st1 = step s2"
    using st1 s3 by simp
  have "wandb st1 = wandb st @ ([Image ''Training image'' (step st) x0 y0 p0] @ ls
      @ [Scalar ''val_loss'' v (step s2), Image ''Validation image'' (step s3) x1 y1 p1])"
    using st1 s3 ls(1) s1 by simp
  then have "appended st (Inr st1) = [Image ''Training image'' (step st) x0 y0 p0] @ ls
      @ [Scalar ''val_loss'' v (step s2), Image ''Validation image'' (step s3) x1 y1 p1]"
    by (simp add: appended_def)
  then have val: "map entry_step (reports ''val_loss'' (appended st (Inr st1))) = [step st1]"
    using reports_other [OF ls(2), of "''val_loss''"] step by simp
  let ?next = "run_epoch env opt trd ted trl tel (Suc e) st1"
  from run_epoch_logged [of env opt trd ted trl tel "Suc e" st1] obtain img ls' rest where
    nxt: "logged ?next = wandb st1 @ img @ ls' @ rest"
      "reports ''loss'' img = []" "list_all (is_scalar ''loss'') ls'"
      "map entry_step ls' = [step st1 ..< step st1 + length ls']"
      "reports ''loss'' rest = []"
    by blast
  have "appended st1 ?next = img @ ls' @ rest"
    using nxt(1) by (simp add: appended_def)
  then have losses: "reports ''loss'' (appended st1 ?next) = ls'"
    using nxt(2,5) reports_all [OF nxt(3)] by simp
  have range: "map entry_step (reports ''loss'' (appended st1 ?next))
      = [step st1 ..< step st1 + length (reports ''loss'' (appended st1 ?next))]"
    using nxt(4) losses by simp
  have first: "reports ''loss'' (appended st1 ?next) \<noteq> []
      \<longrightarrow> entry_step (hd (reports ''loss'' (appended st1 ?next))) = step st1"
  proof
    assume ne: "reports ''loss'' (appended st1 ?next) \<noteq> []"
    then have "entry_step (hd (reports ''loss'' (appended st1 ?next)))
        = hd (map entry_step (reports ''loss'' (appended st1 ?next)))"
      by (simp add: hd_map)
    also have "\<dots> = hd [step st1 ..< step st1 + length (reports ''loss'' (appended st1 ?next))]"
      using range by simp
    also have "\<dots> = step st1"
      using ne by (simp add: upt_rec)
    finally show "entry_step (hd (reports ''loss'' (appended st1 ?next))) = step st1" .
  qed
  from val range first show ?thesis by blast
qed

theorem step_shared_witness:
  "map entry_step (reports ''val_loss'' (appended example_start (Inr example_after_epoch))) = [1]
   \<and> entry_step (hd (reports ''loss'' (appended example_after_epoch
        (run_epoch example_run_env example_optimizer example_train_dataset example_test_dataset
           example_train_loader example_test_loader (Suc 0) example_after_epoch)))) = 1"
proof -
  have "reports ''loss'' (appended example_after_epoch
        (run_epoch example_run_env example_optimizer example_train_dataset example_test_dataset
           example_train_loader example_test_loader (Suc 0) example_after_epoch)) \<noteq> []"
    unfolding example_second_epoch
    by (simp add: appended_def example_after_epoch_def example_after_second_epoch_def)
  with step_shared [OF example_epoch] show ?thesis
    by (simp add: example_after_epoch_def)
qed

subsection \<open>Validation without batches\<close>

text \<open>
  Claim C9, as amended. In an epoch whose training image is logged, whose training
  loader yields the batches \<open>bs\<close>, at least one, and whose evaluation loader yields no
  batch, exactly one \<^verbatim>\<open>val_loss\<close> metric is reported: the loss of the last training
  batch, at the parameters before that batch's update, divided by zero, which is not a
  finite value.
\<close>

theorem stale_loss_over_zero:
  assumes "log_image env ''Training image'' trd st = Inr st1"
    and "data_loader_iter env trl e = map Inr bs"
    and "bs \<noteq> []"
    and "data_loader_iter env tel e = []"
  shows "reports ''val_loss'' (appended st (run_epoch env opt trd ted trl tel e st)) =
      [Scalar ''val_loss''
         (true_divide (loss_fn env (model_params (foldl (train_step env opt) st1 (butlast bs)))
                         (fst (last bs)) (snd (last bs))) 0)
         (step st + length bs)]
    \<and> \<not> is_finite
         (true_divide (loss_fn env (model_params (foldl (train_step env opt) st1 (butlast bs)))
                         (fst (last bs)) (snd (last bs))) 0)"
proof -
  let ?l = "loss_fn env (model_params (foldl (train_step env opt) st1 (butlast bs)))
      (fst (last bs)) (snd (last bs))"
  let ?s2 = "foldl (train_step env opt) st1 bs"
  from log_image_Inr [OF assms(1)] obtain x0 y0 p0 where
    st1: "st1 = st\<lparr>wandb := wandb st @ [Image ''Training image'' (step st) x0 y0 p0]\<rparr>"
    by blast
  have tp: "train_pass env opt st1 (data_loader_iter env trl e) = Inr ?s2"
    using assms(2) by (simp add: train_pass_map_Inr)
  from train_pass_logged [of env opt st1 "data_loader_iter env trl e"] tp obtain ls where
    ls: "wandb ?s2 = wandb st1 @ ls" "list_all (is_scalar ''loss'') ls"
      "step ?s2 = step st1 + length ls"
      "map entry_step ls = [step st1 ..< step st1 + length ls]"
    by auto
  have "length ls = length (map entry_step ls)" by simp
  have lv: "lossval ?s2 = Some ?l"
    using assms(3) by (rule foldl_train_step_lossval)
  let ?s3 = "?s2\<lparr>wandb := wandb ?s2 @ [Scalar ''val_loss'' (true_divide ?l 0) (step ?s2)]\<rparr>"
  have vr: "validate_and_report env ?s2 (data_loader_iter env tel e) = Inr ?s3"
    using assms(4) lv
    by (simp add: validate_and_report_def validation_pass_def report_val_loss_def)
  have epoch: "run_epoch env opt trd ted trl tel e st = log_image env ''Validation image'' ted ?s3"
    using assms(1) tp vr by (simp add: run_epoch_def)
  from log_image_logged [of "''Validation image''" ted trd ted env ?s3 "''val_loss''"]
  obtain im where im:
    "logged (log_image env ''Validation image'' ted ?s3) = wandb ?s3 @ im"
    "reports ''val_loss'' im = []"
    by auto
  have "logged (run_epoch env opt trd ted trl tel e st) =
      wandb st @ ([Image ''Training image'' (step st) x0 y0 p0] @ ls
        @ [Scalar ''val_loss'' (true_divide ?l 0) (step ?s2)] @ im)"
    using epoch im(1) ls(1) st1 by simp
  then have "appended st (run_epoch env opt trd ted trl tel e st) =
      [Image ''Training image'' (step st) x0 y0 p0] @ ls
        @ [Scalar ''val_loss'' (true_divide ?l 0) (step ?s2)] @ im"
    by (simp add: appended_def)
  then have "reports ''val_loss'' (appended st (run_epoch env opt trd ted trl tel e st)) =
      [Scalar ''val_loss'' (true_divide ?l 0) (step ?s2)]"
    using reports_other [OF ls(2), of "''val_loss''"] im(2) by simp
  moreover have "step ?s2 = step st + length bs"
  proof -
    have "step (foldl (train_step env opt) s bs) = step s + length bs" for s
      by (induction bs arbitrary: s) (simp_all add: train_step_fields)
    then show ?thesis using st1 by simp
  qed
  ultimately show ?thesis
    using true_divide_zero by simp
qed

theorem stale_loss_over_zero_witness:
  "reports ''val_loss'' (appended example_start
      (run_epoch example_run_env example_optimizer no_eval_train_dataset no_eval_test_dataset
         no_eval_train_loader no_eval_test_loader 0 example_start))
     = [Scalar ''val_loss'' PosInf 1]
   \<and> \<not> is_finite PosInf"
  using stale_loss_over_zero [OF no_eval_image no_eval_train_items _ no_eval_test_items,
      of example_optimizer no_eval_test_dataset]
  by (simp add: example_start_def example_run_env_def)

text \<open>
  Claim C9 as stated fails when the training loader yields no batch either: with three
  samples, \<^verbatim>\<open>n_train = 3\<close>, \<^verbatim>\<open>n_test = 0\<close> and batch size 20, \<^verbatim>\<open>lossval\<close> is unbound
  at line 130 and \<^verbatim>\<open>main\<close> ends in \<^verbatim>\<open>UnboundLocalError\<close> with no \<^verbatim>\<open>val_loss\<close> reported.
\<close>

theorem unbound_lossval_counterexample:
  "main_with no_batch_settings no_batch_env no_batch_dataset
     = Inl (UnboundLocalError, [Image ''Training image'' 0 3 6 0])"
  by (simp add: main_with_def no_batch_settings_def no_batch_env_def no_batch_dataset_def
      random_split_def DataLoader_def subset_getitem_def getitem_def expand_dims_def
      run_epoch_def log_image_def data_loader_iter_def sampler_order_def batch_sampler.simps
      validate_and_report_def validation_pass_def report_val_loss_def Let_def)

subsection \<open>The dataset partitioner\<close>

text \<open>
  Claim C3, as amended. When \<^verbatim>\<open>n_train + n_eval\<close> equals the length \<open>N\<close> of the dataset and
  the permutation drawn is a permutation of \<^verbatim>\<open>range(N)\<close>, the partitioner returns two
  lists of indices into the dataset, of lengths \<^verbatim>\<open>n_train\<close> and \<^verbatim>\<open>n_eval\<close>, that share no
  index.
\<close>

theorem random_split_exact:
  assumes "n_tr + n_ev = N" and "is_randperm N perm"
  shows "\<exists>tr ev. random_split N n_tr n_ev perm = Inr (tr, ev)
           \<and> length tr = n_tr \<and> length ev = n_ev \<and> set tr \<inter> set ev = {}
           \<and> list_all (\<lambda>i. i < N) (tr @ ev)"
proof -
  let ?tr = "take n_tr perm" and ?ev = "take n_ev (drop n_tr perm)"
  from assms(2) have len: "length perm = N" and dist: "distinct perm"
    and range: "list_all (\<lambda>i. i < N) perm"
    by (simp_all add: is_randperm_def)
  have "random_split N n_tr n_ev perm = Inr (?tr, ?ev)"
    using assms(1) by (rule random_split_sum)
  moreover have "length ?tr = n_tr" "length ?ev = n_ev"
    using len assms(1) by simp_all
  moreover have "set ?tr \<inter> set ?ev = {}"
  proof -
    have "set ?tr \<inter> set (drop n_tr perm) = {}"
      using dist by (rule set_take_disj_set_drop_if_distinct) simp
    moreover have "set ?ev \<subseteq> set (drop n_tr perm)"
      by (rule set_take_subset)
    ultimately show ?thesis by blast
  qed
  moreover have "list_all (\<lambda>i. i < N) (?tr @ ?ev)"
  proof -
    have "set (?tr @ ?ev) \<subseteq> set perm"
      using set_take_subset [of n_tr perm] set_take_subset [of n_ev "drop n_tr perm"]
        set_drop_subset [of n_tr perm]
      by auto
    with range show ?thesis
      unfolding list_all_iff by blast
  qed
  ultimately show ?thesis by blast
qed

theorem random_split_exact_witness:
  "random_split 5 2 3 [3, 0, 4, 1, 2] = Inr ([3, 0], [4, 1, 2])
   \<and> length [3, 0 :: nat] = 2 \<and> length [4, 1, 2 :: nat] = 3
   \<and> set [3, 0 :: nat] \<inter> set [4, 1, 2] = {}
   \<and> list_all (\<lambda>i. i < 5) ([3, 0 :: nat] @ [4, 1, 2])"
proof -
  have "(2 :: nat) + 3 = 5" by simp
  moreover have "is_randperm 5 [3, 0, 4, 1, 2]" by (simp add: is_randperm_def)
  ultimately have "\<exists>tr ev. random_split 5 2 3 [3, 0, 4, 1, 2] = Inr (tr, ev)
      \<and> length tr = 2 \<and> length ev = 3 \<and> set tr \<inter> set ev = {}
      \<and> list_all (\<lambda>i. i < 5) (tr @ ev)"
    by (rule random_split_exact)
  then show ?thesis by (simp add: random_split_counts)
qed

text \<open>
  Claim C3 as stated fails for sizes that sum to less than the length: a dataset of
  three samples with \<^verbatim>\<open>n_train = 1\<close> and \<^verbatim>\<open>n_eval = 1\<close> is refused.
\<close>

theorem random_split_short_counterexample:
  "random_split 3 1 1 [2, 0, 1] = Inl ValueError"
  by (simp add: random_split_counts)

text \<open>
  Claim C4, as amended. When \<^verbatim>\<open>n_train + n_eval\<close> exceeds the length of the dataset and
  is not 1, the partitioner raises (\<^verbatim>\<open>ValueError\<close>, the configuration error of the
  specification), and so does \<^verbatim>\<open>main\<close>, before anything is logged.
\<close>

theorem random_split_too_long:
  assumes "length ds < n_train cfg + n_test cfg" and "n_train cfg + n_test cfg \<noteq> 1"
  shows "random_split (length ds) (n_train cfg) (n_test cfg) perm = Inl ValueError
       \<and> main_with cfg env ds = Inl (ValueError, [])"
  using assms by (simp add: random_split_counts main_with_def)

theorem random_split_too_long_witness:
  "random_split (length [(1 :: real, 2 :: real)]) (n_train example_settings) (n_test example_settings) [0]
     = Inl ValueError
   \<and> main_with example_settings example_run_env [(1, 2)] = Inl (ValueError, [])"
proof -
  have "length [(1 :: real, 2 :: real)] < n_train example_settings + n_test example_settings"
    by (simp add: example_settings_def)
  moreover have "n_train example_settings + n_test example_settings \<noteq> 1"
    by (simp add: example_settings_def)
  ultimately show ?thesis by (rule random_split_too_long)
qed

text \<open>
  Claim C4 as stated fails for sizes that sum to 1, which are read as fractions: on
  an empty dataset the sizes 1 and 0 exceed the length, and the partitioner returns two
  empty subsets.
\<close>

theorem random_split_fraction_counterexample:
  "random_split 0 1 0 [] = Inr ([], [])"
  by (simp add: random_split_fractions)

subsection \<open>Batch sizes\<close>

text \<open>
  Claim C5. For a batch size \<open>B > 0\<close> and a sampler order over a subset of \<open>n\<close> elements:
  when the trailing group is dropped every batch has \<open>B\<close> elements and there are
  \<open>n div B\<close> batches; when it is kept and the subset is not empty, the last batch has
  \<open>n mod B\<close> elements if that is not zero, and \<open>B\<close> elements otherwise.
\<close>

theorem batch_sizes:
  assumes "0 < B" and "length order = n"
  shows "list_all (\<lambda>b. length b = B) (batch_sampler B True order)
       \<and> length (batch_sampler B True order) = n div B
       \<and> (n \<noteq> 0 \<longrightarrow> batch_sampler B False order \<noteq> []
            \<and> length (last (batch_sampler B False order)) = (if n mod B \<noteq> 0 then n mod B else B))"
  using assms batch_sampler_drop_all [of B order] batch_sampler_drop_length [of B order]
    batch_sampler_keep_last [of B order]
  by auto

theorem batch_sizes_witness:
  "batch_sampler 2 True [0, 1, 2, 3, 4] = [[0, 1], [2, 3]]
   \<and> batch_sampler 2 False [0, 1, 2, 3, 4] = [[0, 1], [2, 3], [4]]
   \<and> length (batch_sampler 2 True [0, 1, 2, 3, 4]) = 5 div 2
   \<and> length (last (batch_sampler 2 False [0, 1, 2, 3, 4])) = 5 mod 2"
proof -
  have "(0 :: nat) < 2" by simp
  moreover have "length [0, 1, 2, 3, 4 :: nat] = 5" by simp
  ultimately have "list_all (\<lambda>b. length b = 2) (batch_sampler 2 True [0, 1, 2, 3, 4])
       \<and> length (batch_sampler 2 True [0, 1, 2, 3, 4]) = 5 div 2
       \<and> ((5 :: nat) \<noteq> 0 \<longrightarrow> batch_sampler 2 False [0, 1, 2, 3, 4] \<noteq> []
            \<and> length (last (batch_sampler 2 False [0, 1, 2, 3, 4]))
              = (if (5 :: nat) mod 2 \<noteq> 0 then 5 mod 2 else 2))"
    by (rule batch_sizes)
  moreover have "batch_sampler 2 True [0, 1, 2, 3, 4] = [[0, 1], [2, 3]]"
    "batch_sampler 2 False [0, 1, 2, 3, 4] = [[0, 1], [2, 3], [4]]"
    by (simp_all add: batch_sampler.simps)
  ultimately show ?thesis by simp
qed

subsection \<open>Weight decay at a zero gradient\<close>

text \<open>
  Claim C6. With the \<^verbatim>\<open>optax\<close> optimizer, an optimizer state whose moment estimates are
  zero and an update step whose gradient is zero, every parameter value \<open>params k\<close>
  becomes \<open>params k * (1 - learning_rate * weight_decay)\<close>.
\<close>

theorem zero_gradient_decay:
  assumes "mu s = (\<lambda>k. 0)" and "nu s = (\<lambda>k. 0)"
    and "snd (value_and_grad (with_optax env) (loss_fn (with_optax env)) params x y) = (\<lambda>k. 0)"
  shows "fst (update (with_optax env) (adamw (with_optax env) lr wd) params s x y) k
       = params k * (1 - lr * wd)"
proof -
  obtain l where vg:
    "value_and_grad (with_optax env) (loss_fn (with_optax env)) params x y = (l, \<lambda>k. 0)"
    using assms(3) by (cases "value_and_grad (with_optax env) (loss_fn (with_optax env)) params x y") simp
  have "fst (update (with_optax env) (adamw (with_optax env) lr wd) params s x y) k
      = params k + - lr * (0 + wd * params k)"
    by (simp add: update_def vg) (simp add: with_optax_def optax_adamw_def optax_apply_updates_def
        Let_def assms(1,2))
  then show ?thesis by (simp add: algebra_simps)
qed

theorem zero_gradient_decay_witness:
  "fst (update optax_example_env
          (adamw optax_example_env (learning_rate SETTINGS) (weight_decay SETTINGS))
          optimum fresh_adam_state [1, 2] [2, 4]) ()
     = 99999999 / 50000000"
proof -
  have env: "optax_example_env = with_optax optax_example_env"
    by (simp add: optax_example_env_def with_optax_def)
  have m: "mu fresh_adam_state = (\<lambda>k. 0)" and n: "nu fresh_adam_state = (\<lambda>k. 0)"
    by (simp_all add: fresh_adam_state_def optax_adamw_def)
  have g: "snd (value_and_grad (with_optax optax_example_env)
      (loss_fn (with_optax optax_example_env)) optimum [1, 2] [2, 4]) = (\<lambda>k. 0)"
    by (simp add: value_and_grad_def loss_fn_def optax_example_env_def with_optax_def optimum_def)
  from zero_gradient_decay [OF m n g, of "learning_rate SETTINGS" "weight_decay SETTINGS" "()"]
  have "fst (update (with_optax optax_example_env)
          (adamw (with_optax optax_example_env) (learning_rate SETTINGS) (weight_decay SETTINGS))
          optimum fresh_adam_state [1, 2] [2, 4]) ()
     = optimum () * (1 - learning_rate SETTINGS * weight_decay SETTINGS)" .
  then have "fst (update optax_example_env
          (adamw optax_example_env (learning_rate SETTINGS) (weight_decay SETTINGS))
          optimum fresh_adam_state [1, 2] [2, 4]) ()
     = optimum () * (1 - learning_rate SETTINGS * weight_decay SETTINGS)"
    using env by simp
  then show ?thesis by (simp add: optimum_def SETTINGS_def)
qed

end
